theory Spec2Isabelle
  imports Complex_Main
begin

section \<open>Data model of the sheet\<close>

text \<open>
  The Python code works on a tyssue \<open>Sheet\<close>: a vertex table \<open>vert_df\<close> and an
  edge table \<open>edge_df\<close>, both pandas data frames addressed by integer labels.
  A data frame is modelled as an association list from the row label to the row,
  in the row order of the frame. Labels are unique in a sheet.
  Floating point numbers are modelled as real numbers, without rounding and without
  \<open>NaN\<close>; the infinite entries of the bounds tables are a value of their own, see the
  type \<open>bound\<close>.
  The collision code addresses the edge columns \<open>sx\<close>, \<open>sy\<close>, \<open>sz\<close> and the axes
  \<open>x\<close>, \<open>y\<close>, \<open>z\<close> by name, so a sheet has the three coordinates
  \<open>coords = [x, y, z]\<close>.
\<close>

datatype error = TopologyChangeError | ValueError | KeyError

datatype axis = X | Y | Z

type_synonym 'a vec3 = "'a \<times> 'a \<times> 'a"

fun vget :: "'a vec3 \<Rightarrow> axis \<Rightarrow> 'a" where
  "vget (x, y, z) X = x"
| "vget (x, y, z) Y = y"
| "vget (x, y, z) Z = z"

fun vset :: "'a vec3 \<Rightarrow> axis \<Rightarrow> 'a \<Rightarrow> 'a vec3" where
  "vset (x, y, z) X v = (v, y, z)"
| "vset (x, y, z) Y v = (x, v, z)"
| "vset (x, y, z) Z v = (x, y, v)"

fun vmap2 :: "('a \<Rightarrow> 'b \<Rightarrow> 'c) \<Rightarrow> 'a vec3 \<Rightarrow> 'b vec3 \<Rightarrow> 'c vec3" where
  "vmap2 f (x, y, z) (x', y', z') = (f x x', f y y', f z z')"

definition coords :: "axis list" where
  "coords = [X, Y, Z]"

record vert_row =
  pos :: "real vec3"
  is_active :: bool

record edge_row =
  srce :: nat
  trgt :: nat
  face :: nat
  spos :: "real vec3"

text \<open>
  \<open>spos\<close> holds the three columns \<open>sx\<close>, \<open>sy\<close>, \<open>sz\<close> of an edge row: the position
  of the source vertex as the geometry last wrote it into the edge table.
\<close>

type_synonym vert_df = "(nat \<times> vert_row) list"
type_synonym edge_df = "(nat \<times> edge_row) list"

record Sheet =
  vert_df :: vert_df
  edge_df :: edge_df
  shyness_setting :: "real option"

text \<open>\<open>shyness_setting\<close> is the entry \<open>settings["shyness"]\<close>, absent when \<open>None\<close>.\<close>

section \<open>Colliding face pairs\<close>

text \<open>
  \<open>pandas.unique\<close> and the construction of a Python \<open>set\<close> both keep one copy of
  every element; \<open>unique\<close> keeps the first occurrences in order.
\<close>

fun unique :: "'a list \<Rightarrow> 'a list" where
  "unique [] = []"
| "unique (x # xs) = x # filter (\<lambda>y. y \<noteq> x) (unique xs)"

text \<open>
  A \<open>frozenset\<close> of face labels is represented by the sorted list of its distinct
  elements, so that two frozensets are equal exactly when their representations are.
  Python leaves the iteration order of a set open; the model iterates a frozenset in
  ascending order and a set of frozensets in the order of first insertion.
\<close>

definition frozenset :: "nat list \<Rightarrow> nat list" where
  "frozenset xs = sort (remdups xs)"

definition loc_face :: "edge_df \<Rightarrow> nat \<Rightarrow> error + nat" where
  "loc_face df e = (case map_of df e of None \<Rightarrow> Inl KeyError | Some r \<Rightarrow> Inr (face r))"

text \<open>
  \<open>edge_df.loc[edge_pairs.flatten(), "face"].values.reshape((-1, 2))\<close>: the owning
  faces of both edges of every pair; a label that is no edge raises \<open>KeyError\<close>.
\<close>

fun face_pairs_of :: "edge_df \<Rightarrow> (nat \<times> nat) list \<Rightarrow> error + (nat \<times> nat) list" where
  "face_pairs_of df [] = Inr []"
| "face_pairs_of df ((e0, e1) # ps) =
     (case loc_face df e0 of Inl err \<Rightarrow> Inl err | Inr f0 \<Rightarrow>
       (case loc_face df e1 of Inl err \<Rightarrow> Inl err | Inr f1 \<Rightarrow>
         (case face_pairs_of df ps of Inl err \<Rightarrow> Inl err | Inr fs \<Rightarrow> Inr ((f0, f1) # fs))))"

definition get_intersecting_faces :: "edge_df \<Rightarrow> (nat \<times> nat) list \<Rightarrow> error + (nat \<times> nat) list" where
  "get_intersecting_faces df edge_pairs =
     (case face_pairs_of df edge_pairs of
        Inl err \<Rightarrow> Inl err
      | Inr fps \<Rightarrow>
          let unique_pairs = unique (map (\<lambda>(f0, f1). frozenset [f0, f1]) fps)
          in Inr (map (\<lambda>pair. (pair ! 0, pair ! 1)) (filter (\<lambda>pair. length pair = 2) unique_pairs)))"

definition unordered :: "nat \<times> nat \<Rightarrow> nat set" where
  "unordered p = {fst p, snd p}"

section \<open>Bounding boxes\<close>

text \<open>
  \<open>_face_bbox\<close>: the minimum and the maximum of the source positions of the edges
  of one face, per axis. numpy raises \<open>ValueError\<close> on the minimum of no rows.
  (Isabelle names start with a letter: the leading underscore of the private Python
  names is dropped.)
\<close>

record bbox =
  bb_l :: "real vec3"
  bb_h :: "real vec3"

definition face_bbox :: "real vec3 list \<Rightarrow> error + bbox" where
  "face_bbox points =
     (case points of
        [] \<Rightarrow> Inl ValueError
      | p # ps \<Rightarrow> Inr \<lparr>bb_l = foldl (vmap2 min) p ps, bb_h = foldl (vmap2 max) p ps\<rparr>)"

definition bbox_sub :: "bbox \<Rightarrow> bbox \<Rightarrow> bbox" where
  "bbox_sub a b = \<lparr>bb_l = vmap2 (-) (bb_l a) (bb_l b), bb_h = vmap2 (-) (bb_h a) (bb_h b)\<rparr>"

section \<open>The collision resolver\<close>

record CollidingBoxes =
  sheet :: Sheet
  edge_pairs :: "(nat \<times> nat) list"
  face_pairs :: "(nat \<times> nat) list"
  edge_buffer :: "(nat \<times> real vec3) list"

definition loc_rows :: "(nat \<times> 'a) list \<Rightarrow> nat list \<Rightarrow> error + 'a list" where
  "loc_rows df labels =
     (if \<forall>k \<in> set labels. map_of df k \<noteq> None
      then Inr (map (\<lambda>k. the (map_of df k)) labels) else Inl KeyError)"

definition upcast_srce :: "Sheet \<Rightarrow> (nat \<times> real vec3) list \<Rightarrow> error + (nat \<times> real vec3) list" where
  \<comment> \<open>Modelled from the spec: \<open>Sheet.upcast_srce\<close> is not part of the sources at hand.
      The spec computes the bounding box of a face from its edges' source-vertex
      positions in the snapshot: every edge label gets the snapshot row of the edge's
      source vertex.\<close>
  "upcast_srce sh df =
     (case loc_rows df (map (\<lambda>(e, r). srce r) (edge_df sh)) of
        Inl err \<Rightarrow> Inl err
      | Inr rows \<Rightarrow> Inr (zip (map fst (edge_df sh)) rows))"

definition CollidingBoxes_init ::
  "Sheet \<Rightarrow> (nat \<times> real vec3) list \<Rightarrow> (nat \<times> nat) list \<Rightarrow> error + CollidingBoxes" where
  "CollidingBoxes_init sh position_buffer intersecting_edges =
     (case get_intersecting_faces (edge_df sh) intersecting_edges of
        Inl err \<Rightarrow> Inl err
      | Inr fps \<Rightarrow>
          (case upcast_srce sh position_buffer of
             Inl err \<Rightarrow> Inl err
           | Inr buf \<Rightarrow>
               Inr \<lparr>sheet = sh, edge_pairs = intersecting_edges, face_pairs = fps,
                    edge_buffer = buf\<rparr>))"

text \<open>
  The rows of the edge table owned by a face, and the rows of the edge buffer selected
  by the same boolean mask (the mask is a series over the edge labels; the buffer
  carries the labels of the edge table).
\<close>

definition face_edges :: "edge_df \<Rightarrow> nat \<Rightarrow> edge_row list" where
  "face_edges df f = map snd (filter (\<lambda>(e, r). face r = f) df)"

definition buffer_rows :: "edge_df \<Rightarrow> (nat \<times> real vec3) list \<Rightarrow> nat \<Rightarrow> real vec3 list" where
  "buffer_rows df buf f =
     map snd (filter (\<lambda>(e, p). case map_of df e of None \<Rightarrow> False | Some r \<Rightarrow> face r = f) buf)"

text \<open>
  The frames \<open>lower_bound\<close> and \<open>upper_bound\<close> of one face pair: the index holds the
  source vertices of one face, and every column (one per flagged axis) holds one
  scalar, the same in every row.
\<close>

record bound_frame =
  index :: "nat list"
  columns :: "(axis \<times> real) list"

definition sign_change_l1h0 :: "bbox \<Rightarrow> bbox \<Rightarrow> bbox \<Rightarrow> bbox \<Rightarrow> axis \<Rightarrow> bool" where
  "sign_change_l1h0 bb0c bb1c bb0p bb1p c =
     (sgn ((vget (bb_l bb1c) c - vget (bb_h bb0c) c) * (vget (bb_l bb1p) c - vget (bb_h bb0p) c)) < 0)"

definition sign_change_l0h1 :: "bbox \<Rightarrow> bbox \<Rightarrow> bbox \<Rightarrow> bbox \<Rightarrow> axis \<Rightarrow> bool" where
  "sign_change_l0h1 bb0c bb1c bb0p bb1p c =
     (sgn ((vget (bb_l bb0c) c - vget (bb_h bb1c) c) * (vget (bb_l bb0p) c - vget (bb_h bb1p) c)) < 0)"

definition plane_coords_l1h0 :: "bbox \<Rightarrow> bbox \<Rightarrow> bbox \<Rightarrow> bbox \<Rightarrow> axis \<Rightarrow> real" where
  "plane_coords_l1h0 bb0c bb1c bb0p bb1p c =
     (let dr0 = bbox_sub bb0c bb0p; dr1 = bbox_sub bb1c bb1p
      in (vget (bb_h bb0p) c * vget (bb_l dr1) c - vget (bb_l bb1p) c * vget (bb_h dr0) c)
           / (vget (bb_l dr1) c - vget (bb_h dr0) c))"

definition plane_coords_l0h1 :: "bbox \<Rightarrow> bbox \<Rightarrow> bbox \<Rightarrow> bbox \<Rightarrow> axis \<Rightarrow> real" where
  "plane_coords_l0h1 bb0c bb1c bb0p bb1p c =
     (let dr0 = bbox_sub bb0c bb0p; dr1 = bbox_sub bb1c bb1p
      in (vget (bb_h bb1p) c * vget (bb_l dr0) c - vget (bb_l bb0p) c * vget (bb_h dr1) c)
           / (vget (bb_l dr0) c - vget (bb_h dr1) c))"

text \<open>
  \<open>_collision_plane\<close>, given the four bounding boxes. The result \<open>None\<close> is the pair
  \<open>(None, None)\<close> of the warning branch.
\<close>

definition plane_of_boxes ::
  "nat list \<Rightarrow> nat list \<Rightarrow> bbox \<Rightarrow> bbox \<Rightarrow> bbox \<Rightarrow> bbox \<Rightarrow> real \<Rightarrow> (bound_frame \<times> bound_frame) option" where
  "plane_of_boxes srce0 srce1 bb0c bb1c bb0p bb1p shyness =
     (if \<exists>c \<in> set coords. sign_change_l1h0 bb0c bb1c bb0p bb1p c then
        let coll_ax = filter (sign_change_l1h0 bb0c bb1c bb0p bb1p) coords;
            plane_coords = plane_coords_l1h0 bb0c bb1c bb0p bb1p
        in Some (\<lparr>index = srce1, columns = map (\<lambda>c. (c, plane_coords c + shyness / 2)) coll_ax\<rparr>,
                 \<lparr>index = srce0, columns = map (\<lambda>c. (c, plane_coords c - shyness / 2)) coll_ax\<rparr>)
      else if \<exists>c \<in> set coords. sign_change_l0h1 bb0c bb1c bb0p bb1p c then
        let coll_ax = filter (sign_change_l0h1 bb0c bb1c bb0p bb1p) coords;
            plane_coords = plane_coords_l0h1 bb0c bb1c bb0p bb1p
        in Some (\<lparr>index = srce0, columns = map (\<lambda>c. (c, plane_coords c + shyness / 2)) coll_ax\<rparr>,
                 \<lparr>index = srce1, columns = map (\<lambda>c. (c, plane_coords c - shyness / 2)) coll_ax\<rparr>)
      else None)"

definition collision_plane ::
  "CollidingBoxes \<Rightarrow> nat \<times> nat \<Rightarrow> real \<Rightarrow> error + (bound_frame \<times> bound_frame) option" where
  "collision_plane boxes face_pair shyness =
     (case face_pair of (f0, f1) \<Rightarrow>
        let fe0c = face_edges (edge_df (sheet boxes)) f0;
            fe1c = face_edges (edge_df (sheet boxes)) f1;
            fe0p = buffer_rows (edge_df (sheet boxes)) (edge_buffer boxes) f0;
            fe1p = buffer_rows (edge_df (sheet boxes)) (edge_buffer boxes) f1
        in (case face_bbox (map spos fe0c) of Inl err \<Rightarrow> Inl err | Inr bb0c \<Rightarrow>
           (case face_bbox (map spos fe1c) of Inl err \<Rightarrow> Inl err | Inr bb1c \<Rightarrow>
           (case face_bbox fe0p of Inl err \<Rightarrow> Inl err | Inr bb0p \<Rightarrow>
           (case face_bbox fe1p of Inl err \<Rightarrow> Inl err | Inr bb1p \<Rightarrow>
              Inr (plane_of_boxes (map srce fe0c) (map srce fe1c) bb0c bb1c bb0p bb1p shyness))))))"

text \<open>
  The bounds tables \<open>lower_bounds\<close> and \<open>upper_bounds\<close>: one row per colliding vertex,
  one entry per axis. An entry is \<open>Unbounded\<close> while it holds its initial infinite
  value (\<open>-inf\<close> in the table of lower bounds, \<open>+inf\<close> in the table of upper bounds)
  and \<open>Fin b\<close> once a finite bound \<open>b\<close> has been written.
\<close>

datatype bound = Unbounded | Fin real

type_synonym bounds = "(nat \<times> bound vec3) list"

text \<open>\<open>np.maximum\<close> against \<open>-inf\<close> or a finite entry, \<open>np.minimum\<close> against \<open>+inf\<close> or a finite entry.\<close>

fun maximum_lower :: "bound \<Rightarrow> real \<Rightarrow> bound" where
  "maximum_lower Unbounded v = Fin v"
| "maximum_lower (Fin b) v = Fin (max b v)"

fun minimum_upper :: "bound \<Rightarrow> real \<Rightarrow> bound" where
  "minimum_upper Unbounded v = Fin v"
| "minimum_upper (Fin b) v = Fin (min b v)"

definition isfinite :: "bound \<Rightarrow> bool" where
  "isfinite b = (b \<noteq> Unbounded)"

text \<open>The order of a lower bound and an upper bound: \<open>-inf\<close> is below and \<open>+inf\<close> above everything.\<close>

fun lower_le_upper :: "bound \<Rightarrow> bound \<Rightarrow> bool" where
  "lower_le_upper (Fin a) (Fin b) = (a \<le> b)"
| "lower_le_upper _ _ = True"

definition ravel :: "(nat \<times> nat) list \<Rightarrow> nat list" where
  "ravel fps = concat (map (\<lambda>(f0, f1). [f0, f1]) fps)"

definition colliding_verts :: "CollidingBoxes \<Rightarrow> nat list" where
  "colliding_verts boxes =
     unique (map (\<lambda>(e, r). srce r)
       (filter (\<lambda>(e, r). face r \<in> set (ravel (face_pairs boxes))) (edge_df (sheet boxes))))"

text \<open>
  \<open>bounds.loc[frame.index, frame.columns] = op(bounds.loc[frame.index, frame.columns], frame)\<close>:
  a label of the frame that is no row of the table raises \<open>KeyError\<close>.
\<close>

definition update_bounds :: "(bound \<Rightarrow> real \<Rightarrow> bound) \<Rightarrow> bound_frame \<Rightarrow> bounds \<Rightarrow> error + bounds" where
  "update_bounds op frame tbl =
     (if \<forall>v \<in> set (index frame). v \<in> fst ` set tbl then
        Inr (map (\<lambda>(v, row).
               if v \<in> set (index frame)
               then (v, foldl (\<lambda>r (c, b). vset r c (op (vget r c) b)) row (columns frame))
               else (v, row)) tbl)
      else Inl KeyError)"

text \<open>The loop over \<open>get_limits\<close>; the state is the two tables and \<open>plane_found\<close>.\<close>

fun limits_loop ::
  "CollidingBoxes \<Rightarrow> real \<Rightarrow> (nat \<times> nat) list \<Rightarrow> bounds \<times> bounds \<times> bool \<Rightarrow> error + bounds \<times> bounds \<times> bool" where
  "limits_loop boxes shyness [] st = Inr st"
| "limits_loop boxes shyness (fp # fps) (lower_bounds, upper_bounds, plane_found) =
     (case collision_plane boxes fp shyness of
        Inl err \<Rightarrow> Inl err
      | Inr None \<Rightarrow> limits_loop boxes shyness fps (lower_bounds, upper_bounds, plane_found)
      | Inr (Some (lower, upper)) \<Rightarrow>
          (case update_bounds maximum_lower lower lower_bounds of
             Inl err \<Rightarrow> Inl err
           | Inr lower_bounds' \<Rightarrow>
               (case update_bounds minimum_upper upper upper_bounds of
                  Inl err \<Rightarrow> Inl err
                | Inr upper_bounds' \<Rightarrow>
                    limits_loop boxes shyness fps (lower_bounds', upper_bounds', True))))"

text \<open>
  \<open>bounds[np.isfinite(bounds.values)]\<close>: a two-dimensional boolean mask selects, through
  \<open>nonzero()[0]\<close>, the row of every finite entry, so a row comes once per finite entry it
  holds and a row with no finite entry is dropped.
\<close>

fun vlist :: "'a vec3 \<Rightarrow> 'a list" where
  "vlist (x, y, z) = [x, y, z]"

definition finite_rows :: "bounds \<Rightarrow> bounds" where
  "finite_rows tbl =
     concat (map (\<lambda>(v, row). replicate (length (filter isfinite (vlist row))) (v, row)) tbl)"

text \<open>
  \<open>.groupby("vert").apply(min)\<close> and \<open>.apply(max)\<close>: one row per label, in ascending
  order of the labels, holding per column the minimum (maximum) over the rows of the
  label; pandas maps the builtins \<open>min\<close> and \<open>max\<close> to the column reductions.
  Every group has a row, and the infinite entry is neutral for both reductions, so the
  reduction starts from the row of infinite entries.
\<close>

fun upper_min :: "bound \<Rightarrow> bound \<Rightarrow> bound" where
  "upper_min Unbounded b = b"
| "upper_min (Fin a) Unbounded = Fin a"
| "upper_min (Fin a) (Fin b) = Fin (min a b)"

fun lower_max :: "bound \<Rightarrow> bound \<Rightarrow> bound" where
  "lower_max Unbounded b = b"
| "lower_max (Fin a) Unbounded = Fin a"
| "lower_max (Fin a) (Fin b) = Fin (max a b)"

definition groupby_apply :: "(bound \<Rightarrow> bound \<Rightarrow> bound) \<Rightarrow> bounds \<Rightarrow> bounds" where
  "groupby_apply op tbl =
     map (\<lambda>v. (v, foldl (vmap2 op) (Unbounded, Unbounded, Unbounded)
                     (map snd (filter (\<lambda>(k, row). k = v) tbl))))
       (sort (remdups (map fst tbl)))"

text \<open>\<open>np.minimum(position, upper)\<close> and \<open>np.maximum(position, lower)\<close>, per entry.\<close>

fun minimum_pos :: "real \<Rightarrow> bound \<Rightarrow> real" where
  "minimum_pos x Unbounded = x"
| "minimum_pos x (Fin b) = min x b"

fun maximum_pos :: "real \<Rightarrow> bound \<Rightarrow> real" where
  "maximum_pos x Unbounded = x"
| "maximum_pos x (Fin b) = max x b"

definition correction ::
  "(real \<Rightarrow> bound \<Rightarrow> real) \<Rightarrow> vert_df \<Rightarrow> bounds \<Rightarrow> error + (nat \<times> real vec3) list" where
  "correction op df tbl =
     (case loc_rows df (map fst tbl) of
        Inl err \<Rightarrow> Inl err
      | Inr rows \<Rightarrow> Inr (map (\<lambda>(r, (v, b)). (v, vmap2 op (pos r) b)) (zip rows tbl)))"

text \<open>
  \<open>vert_df.loc[corrections.index.values, coords] = corrections\<close>: the rows of
  \<open>corrections\<close> are written one after the other at the positions of their labels, so
  for a label that occurs twice the later row is the one that stays.
\<close>

definition set_row :: "vert_df \<Rightarrow> nat \<times> real vec3 \<Rightarrow> vert_df" where
  "set_row df vp = map (\<lambda>(k, r). if k = fst vp then (k, r\<lparr>pos := snd vp\<rparr>) else (k, r)) df"

definition loc_assign :: "vert_df \<Rightarrow> (nat \<times> real vec3) list \<Rightarrow> vert_df" where
  "loc_assign df corrections = foldl set_row df corrections"

text \<open>
  \<open>CollidingBoxes.solve_collisions\<close>. The value is what the method returns (\<open>Some 0\<close>
  for \<open>return 0\<close>, \<open>None\<close> when the method ends without a \<open>return\<close>) and the sheet it
  leaves behind. The tables are created for the colliding vertices and filled by the
  loop first (\<open>aggregate_bounds\<close>).
\<close>

definition init_bounds :: "nat list \<Rightarrow> bounds" where
  "init_bounds verts = map (\<lambda>v. (v, (Unbounded, Unbounded, Unbounded))) verts"

definition aggregate_bounds :: "CollidingBoxes \<Rightarrow> real \<Rightarrow> error + bounds \<times> bounds \<times> bool" where
  "aggregate_bounds boxes shyness =
     (let verts = colliding_verts boxes;
          upper_bounds = init_bounds verts;
          lower_bounds = init_bounds verts
      in limits_loop boxes shyness (face_pairs boxes) (lower_bounds, upper_bounds, False))"

definition solve_collisions :: "CollidingBoxes \<Rightarrow> real \<Rightarrow> error + (int option \<times> Sheet)" where
  "solve_collisions boxes shyness =
     (case aggregate_bounds boxes shyness of
        Inl err \<Rightarrow> Inl err
      | Inr (lower_bounds, upper_bounds, plane_found) \<Rightarrow>
          let plane_found = (if length upper_bounds = 0 then False else plane_found)
          in if \<not> plane_found then Inr (Some 0, sheet boxes)
             else
               let upper_bounds = groupby_apply upper_min (finite_rows upper_bounds);
                   lower_bounds = groupby_apply lower_max (finite_rows lower_bounds)
               in (case correction minimum_pos (vert_df (sheet boxes)) upper_bounds of
                     Inl err \<Rightarrow> Inl err
                   | Inr correction_upper \<Rightarrow>
                       (case correction maximum_pos (vert_df (sheet boxes)) lower_bounds of
                          Inl err \<Rightarrow> Inl err
                        | Inr correction_lower \<Rightarrow>
                            let corrections = correction_lower @ correction_upper
                            in Inr (None, (sheet boxes)
                                 \<lparr>vert_df := loc_assign (vert_df (sheet boxes)) corrections\<rparr>))))"

text \<open>
  The crossing coordinate in the words of the specification: two bounding-box edges
  move linearly, one from \<open>a_prev\<close> to \<open>a_cur\<close> and the other from \<open>b_prev\<close> to
  \<open>b_cur\<close>, and meet at the coordinate \<open>p\<close> at some time strictly between the previous
  and the current snapshot.
\<close>

definition crossing :: "real \<Rightarrow> real \<Rightarrow> real \<Rightarrow> real \<Rightarrow> real \<Rightarrow> bool" where
  "crossing a_prev a_cur b_prev b_cur p =
     (\<exists>t. 0 < t \<and> t < 1 \<and> p = a_prev + t * (a_cur - a_prev) \<and> p = b_prev + t * (b_cur - b_prev))"

text \<open>
  A vertex receives a lower (upper) bound on an axis from a face pair when the pair
  yields a plane whose frame of lower (upper) bounds has the vertex in its index and the
  axis among its columns.
\<close>

definition receives_lower :: "CollidingBoxes \<Rightarrow> real \<Rightarrow> (nat \<times> nat) list \<Rightarrow> nat \<Rightarrow> axis \<Rightarrow> bool" where
  "receives_lower boxes shyness fps v c =
     list_ex (\<lambda>fp. case collision_plane boxes fp shyness of
                     Inr (Some (lower, upper)) \<Rightarrow> v \<in> set (index lower) \<and> c \<in> fst ` set (columns lower)
                   | _ \<Rightarrow> False) fps"

definition receives_upper :: "CollidingBoxes \<Rightarrow> real \<Rightarrow> (nat \<times> nat) list \<Rightarrow> nat \<Rightarrow> axis \<Rightarrow> bool" where
  "receives_upper boxes shyness fps v c =
     list_ex (\<lambda>fp. case collision_plane boxes fp shyness of
                     Inr (Some (lower, upper)) \<Rightarrow> v \<in> set (index upper) \<and> c \<in> fst ` set (columns upper)
                   | _ \<Rightarrow> False) fps"

text \<open>What \<open>update_bounds\<close> does to one row of a bounds table.\<close>

definition touch :: "(bound \<Rightarrow> real \<Rightarrow> bound) \<Rightarrow> bound_frame \<Rightarrow> nat \<times> bound vec3 \<Rightarrow> nat \<times> bound vec3" where
  "touch op frame = (\<lambda>(v, row).
               if v \<in> set (index frame)
               then (v, foldl (\<lambda>r (c, b). vset r c (op (vget r c) b)) row (columns frame))
               else (v, row))"

section \<open>The collision-correcting decorator\<close>

text \<open>
  A position update takes the sheet, the geometry and its further arguments, mutates
  the sheet and returns a value or raises: it is a function to the pair of the outcome
  and the sheet it leaves behind. The geometry is an object with the method
  \<open>update_all\<close>; the intersection detector \<open>self_intersections\<close> is imported from
  outside the sources at hand and is a parameter.
\<close>

record Geom =
  update_all :: "Sheet \<Rightarrow> Sheet"

type_synonym ('a, 'r) position_update = "Sheet \<Rightarrow> Geom \<Rightarrow> 'a \<Rightarrow> (error + 'r) \<times> Sheet"

definition with_collision_correction ::
  "(Sheet \<Rightarrow> (nat \<times> nat) list) \<Rightarrow> ('a, 'r) position_update \<Rightarrow> ('a, 'r) position_update" where
  "with_collision_correction self_intersections func sh geom args =
     (let position_buffer = map (\<lambda>(v, r). (v, pos r)) (vert_df sh)
      in case func sh geom args of
           (Inl err, sh1) \<Rightarrow> (Inl err, sh1)
         | (Inr res, sh1) \<Rightarrow>
             let intersecting_edges = self_intersections sh1
             in if length intersecting_edges \<noteq> 0 then
                  let shyness = (case shyness_setting sh1 of None \<Rightarrow> 1 / 10 ^ 10 | Some s \<Rightarrow> s)
                  in (case CollidingBoxes_init sh1 position_buffer intersecting_edges of
                        Inl err \<Rightarrow> (Inl err, sh1)
                      | Inr boxes \<Rightarrow>
                          (case solve_collisions boxes shyness of
                             Inl err \<Rightarrow> (Inl err, sh1)
                           | Inr (n, sh2) \<Rightarrow> (Inr res, update_all geom sh2)))
                else (Inr res, update_all geom sh1))"

section \<open>The quasistatic solver\<close>

definition active_verts :: "Sheet \<Rightarrow> nat list" where
  \<comment> \<open>Modelled from the spec: the property \<open>active_verts\<close> of the mesh is not part of
      the sources at hand. A vertex carries its membership in the active subset; the
      active vertices are the labels of the rows that have it.\<close>
  "active_verts eptm = map fst (filter (\<lambda>(v, r). is_active r) (vert_df eptm))"

fun reshape :: "real list \<Rightarrow> real vec3 list" where
  "reshape (x # y # z # ps) = (x, y, z) # reshape ps"
| "reshape ps = []"

text \<open>
  \<open>QSSolver._set_pos\<close>. \<open>reshape\<close> raises \<open>ValueError\<close> when the size of \<open>pos\<close> is no
  multiple of the number of coordinates, and the assignment when the number of rows
  is not the number of active vertices.
\<close>

definition QSSolver_set_pos :: "(real list, unit) position_update" where
  "QSSolver_set_pos eptm geom p =
     (let ndims = length coords;
          num_p = length p div ndims
      in if length p \<noteq> num_p * ndims then (Inl ValueError, eptm)
         else if num_p \<noteq> length (active_verts eptm) then (Inl ValueError, eptm)
         else (Inr (), update_all geom
                 (eptm\<lparr>vert_df := loc_assign (vert_df eptm) (zip (active_verts eptm) (reshape p))\<rparr>)))"

text \<open>
  The decorators \<open>auto_t1\<close> and \<open>auto_t3\<close> and the transitions they apply; the
  transition operators are parameters.
\<close>

definition auto_t1 :: "(Sheet \<Rightarrow> Geom \<Rightarrow> Sheet) \<Rightarrow> ('a, 'r) position_update \<Rightarrow> ('a, 'r) position_update" where
  \<comment> \<open>Modelled from the spec: \<open>tyssue.topology.auto_t1\<close> is not part of the sources at
      hand. The spec: automatic resolution of degenerate short edges via a type-1-like
      transition, an external operator, applied after the wrapped call. Each wrapper is
      independently optional and the composed corrections are followed by a full geometry
      refresh: the wrapper refreshes the geometry after its correction and returns the
      value of the wrapped call, as the collision wrapper of the sources does.\<close>
  "auto_t1 type1 func eptm geom args =
     (case func eptm geom args of
        (Inl err, s) \<Rightarrow> (Inl err, s)
      | (Inr res, s) \<Rightarrow> (Inr res, update_all geom (type1 s geom)))"

definition auto_t3 :: "(Sheet \<Rightarrow> Geom \<Rightarrow> Sheet) \<Rightarrow> ('a, 'r) position_update \<Rightarrow> ('a, 'r) position_update" where
  \<comment> \<open>Modelled from the spec: \<open>tyssue.topology.auto_t3\<close> is not part of the sources at
      hand. The spec: automatic elimination of degenerate small faces via a type-3-like
      transition, an external operator, applied after the wrapped call. Each wrapper is
      independently optional and the composed corrections are followed by a full geometry
      refresh: the wrapper refreshes the geometry after its correction and returns the
      value of the wrapped call, as the collision wrapper of the sources does.\<close>
  "auto_t3 type3 func eptm geom args =
     (case func eptm geom args of
        (Inl err, s) \<Rightarrow> (Inl err, s)
      | (Inr res, s) \<Rightarrow> (Inr res, update_all geom (type3 s geom)))"

record Collaborators =
  self_intersections :: "Sheet \<Rightarrow> (nat \<times> nat) list"
  type1 :: "Sheet \<Rightarrow> Geom \<Rightarrow> Sheet"
  type3 :: "Sheet \<Rightarrow> Geom \<Rightarrow> Sheet"

record QSSolver =
  set_pos :: "(real list, unit) position_update"
  restart :: bool
  rearange :: bool

definition QSSolver_init :: "Collaborators \<Rightarrow> bool \<Rightarrow> bool \<Rightarrow> bool \<Rightarrow> QSSolver" where
  "QSSolver_init ext with_collisions with_t1 with_t3 =
     (let set_pos0 = QSSolver_set_pos;
          set_pos1 = (if with_collisions
                      then with_collision_correction (self_intersections ext) set_pos0 else set_pos0);
          set_pos2 = (if with_t1 then auto_t1 (type1 ext) set_pos1 else set_pos1);
          set_pos3 = (if with_t3 then auto_t3 (type3 ext) set_pos2 else set_pos2)
      in \<lparr>set_pos = set_pos3, restart = True, rearange = (with_t1 \<or> with_t3)\<rparr>)"

record Model =
  compute_energy :: "Sheet \<Rightarrow> real"
  compute_gradient :: "Sheet \<Rightarrow> (nat \<times> real vec3) list"

definition QSSolver_opt_energy ::
  "QSSolver \<Rightarrow> real list \<Rightarrow> Sheet \<Rightarrow> Geom \<Rightarrow> Model \<Rightarrow> (error + real) \<times> Sheet" where
  "QSSolver_opt_energy self p eptm geom model =
     (if rearange self \<and> length p div length coords \<noteq> length (active_verts eptm)
      then (Inl TopologyChangeError, eptm)
      else (case set_pos self eptm geom p of
              (Inl err, s) \<Rightarrow> (Inl err, s)
            | (Inr u, s) \<Rightarrow> (Inr (compute_energy model s), s)))"

definition QSSolver_opt_grad ::
  "QSSolver \<Rightarrow> real list \<Rightarrow> Sheet \<Rightarrow> Geom \<Rightarrow> Model \<Rightarrow> (error + real list) \<times> Sheet" where
  "QSSolver_opt_grad self p eptm geom model =
     (if rearange self \<and> length p div length coords \<noteq> length (active_verts eptm)
      then (Inl TopologyChangeError, eptm)
      else (case loc_rows (compute_gradient model eptm) (active_verts eptm) of
              Inl err \<Rightarrow> (Inl err, eptm)
            | Inr grad_i \<Rightarrow> (Inr (concat (map vlist grad_i)), eptm)))"

text \<open>
  \<open>scipy.optimize.minimize\<close> is a parameter: a numerical optimizer is a strategy that,
  from the initial vector, asks for the energy or the gradient at trial vectors of its
  choice and goes on with the answer, until it returns its result. An exception of a
  callback ends the run and leaves the optimizer.
\<close>

datatype 'r optimizer =
  Return 'r
| Energy "real list" "real \<Rightarrow> 'r optimizer"
| Gradient "real list" "real list \<Rightarrow> 'r optimizer"

primrec run_optimizer ::
  "QSSolver \<Rightarrow> Geom \<Rightarrow> Model \<Rightarrow> 'r optimizer \<Rightarrow> Sheet \<Rightarrow> (error + 'r) \<times> Sheet" where
  "run_optimizer self geom model (Return res) eptm = (Inr res, eptm)"
| "run_optimizer self geom model (Energy p k) eptm =
     (case QSSolver_opt_energy self p eptm geom model of
        (Inl err, s) \<Rightarrow> (Inl err, s)
      | (Inr e, s) \<Rightarrow> run_optimizer self geom model (k e) s)"
| "run_optimizer self geom model (Gradient p k) eptm =
     (case QSSolver_opt_grad self p eptm geom model of
        (Inl err, s) \<Rightarrow> (Inl err, s)
      | (Inr g, s) \<Rightarrow> run_optimizer self geom model (k g) s)"

definition active_pos :: "Sheet \<Rightarrow> real list" where
  "active_pos eptm =
     concat (map (\<lambda>(v, r). vlist (pos r)) (filter (\<lambda>(v, r). is_active r) (vert_df eptm)))"

text \<open>
  \<open>QSSolver._minimize\<close>: the loop \<open>while True\<close> may go on forever, so the function is
  partial; \<open>None\<close> is the run that never returns.
\<close>

partial_function (option) QSSolver_minimize ::
  "QSSolver \<Rightarrow> (real list \<Rightarrow> 'r optimizer) \<Rightarrow> Geom \<Rightarrow> Model \<Rightarrow> Sheet \<Rightarrow> ((error + 'r) \<times> Sheet) option" where
  "QSSolver_minimize self minimize geom model eptm =
     (let pos0 = active_pos eptm
      in case run_optimizer self geom model (minimize pos0) eptm of
           (Inr res, s) \<Rightarrow> Some (Inr res, s)
         | (Inl TopologyChangeError, s) \<Rightarrow> QSSolver_minimize self minimize geom model s
         | (Inl err, s) \<Rightarrow> Some (Inl err, s))"

definition find_energy_min ::
  "QSSolver \<Rightarrow> (real list \<Rightarrow> 'r optimizer) \<Rightarrow> Sheet \<Rightarrow> Geom \<Rightarrow> Model \<Rightarrow> ((error + 'r) \<times> Sheet) option" where
  "find_energy_min self minimize eptm geom model = QSSolver_minimize self minimize geom model eptm"

text \<open>
  The restarts of the solver, as a relation between the sheet a round starts from and
  the outcome of the call: a round that returns or raises another error ends the call,
  a round that raises the topology change is followed by a round from the sheet it left.
\<close>

inductive restarts ::
  "QSSolver \<Rightarrow> (real list \<Rightarrow> 'r optimizer) \<Rightarrow> Geom \<Rightarrow> Model \<Rightarrow> Sheet \<Rightarrow> (error + 'r) \<times> Sheet \<Rightarrow> bool"
  for self minimize geom model where
  completes: "run_optimizer self geom model (minimize (active_pos eptm)) eptm = (Inr res, s)
              \<Longrightarrow> restarts self minimize geom model eptm (Inr res, s)"
| fails: "run_optimizer self geom model (minimize (active_pos eptm)) eptm = (Inl err, s)
              \<Longrightarrow> err \<noteq> TopologyChangeError
              \<Longrightarrow> restarts self minimize geom model eptm (Inl err, s)"
| restart: "run_optimizer self geom model (minimize (active_pos eptm)) eptm = (Inl TopologyChangeError, s)
              \<Longrightarrow> restarts self minimize geom model s out
              \<Longrightarrow> restarts self minimize geom model eptm out"

text \<open>
  The collision correction alone, as \<open>with_collision_correction\<close> performs it on the
  mesh that the wrapped call has left: detection and, when edges intersect, resolution.
\<close>

definition collision_correction ::
  "(Sheet \<Rightarrow> (nat \<times> nat) list) \<Rightarrow> (nat \<times> real vec3) list \<Rightarrow> Sheet \<Rightarrow> error + Sheet" where
  "collision_correction si position_buffer sh1 =
     (let intersecting_edges = si sh1
      in if length intersecting_edges \<noteq> 0 then
           let shyness = (case shyness_setting sh1 of None \<Rightarrow> 1 / 10 ^ 10 | Some s \<Rightarrow> s)
           in (case CollidingBoxes_init sh1 position_buffer intersecting_edges of
                 Inl err \<Rightarrow> Inl err
               | Inr boxes \<Rightarrow>
                   (case solve_collisions boxes shyness of
                      Inl err \<Rightarrow> Inl err
                    | Inr (n, sh2) \<Rightarrow> Inr sh2))
         else Inr sh1)"

text \<open>
  The course of one round of the optimizer: from the strategy \<open>opt0\<close> on the mesh
  \<open>s0\<close>, the round arrives at the strategy \<open>opt\<close> on the mesh \<open>s\<close> after a number of
  evaluations that all returned.
\<close>

inductive reaches ::
  "QSSolver \<Rightarrow> Geom \<Rightarrow> Model \<Rightarrow> 'r optimizer \<Rightarrow> Sheet \<Rightarrow> 'r optimizer \<Rightarrow> Sheet \<Rightarrow> bool"
  for self geom model opt0 s0 where
  start: "reaches self geom model opt0 s0 opt0 s0"
| energy: "reaches self geom model opt0 s0 (Energy p k) s
           \<Longrightarrow> QSSolver_opt_energy self p s geom model = (Inr e, s')
           \<Longrightarrow> reaches self geom model opt0 s0 (k e) s'"
| gradient: "reaches self geom model opt0 s0 (Gradient p k) s
           \<Longrightarrow> QSSolver_opt_grad self p s geom model = (Inr g, s')
           \<Longrightarrow> reaches self geom model opt0 s0 (k g) s'"

section \<open>Example sheets\<close>

text \<open>
  Three triangles, face 0 on vertices 0, 1, 2, face 1 on vertices 3, 4, 5 and face 2 on
  vertices 6, 7, 8; edge \<open>e\<close> starts at vertex \<open>e\<close>. Only the \<open>x\<close> coordinates differ
  between the examples; the setting \<open>shyness\<close> is 1.
\<close>

definition tri_sheet :: "real list \<Rightarrow> Sheet" where
  "tri_sheet xs =
     \<lparr>vert_df = map (\<lambda>v. (v, \<lparr>pos = (xs ! v, if v mod 3 = 1 then 1 else 0, 0), is_active = True\<rparr>)) [0..<9],
      edge_df = map (\<lambda>e. (e, \<lparr>srce = e, trgt = 3 * (e div 3) + (e + 1) mod 3, face = e div 3,
                                spos = (xs ! e, if e mod 3 = 1 then 1 else 0, 0)\<rparr>)) [0..<9],
      shyness_setting = Some 1\<rparr>"

definition tri_buffer :: "real list \<Rightarrow> (nat \<times> real vec3) list" where
  "tri_buffer xs = map (\<lambda>v. (v, (xs ! v, if v mod 3 = 1 then 1 else 0, 0))) [0..<9]"

definition tri_boxes :: "real list \<Rightarrow> real list \<Rightarrow> (nat \<times> nat) list \<Rightarrow> CollidingBoxes" where
  "tri_boxes cur prev fps =
     \<lparr>sheet = tri_sheet cur, edge_pairs = [], face_pairs = fps, edge_buffer = tri_buffer prev\<rparr>"

text \<open>
  The first example: face 0 rests, face 1 has moved into it from the right and face 2
  from the left.
\<close>

definition ex_cur :: "real list" where
  "ex_cur = [0, 1, 2, 1, 4, 5, -3, -2, 1]"

definition ex_prev :: "real list" where
  "ex_prev = [0, 1, 2, 3, 4, 5, -3, -2, -1]"

definition ex_edge_pairs :: "(nat \<times> nat) list" where
  "ex_edge_pairs = [(2, 3), (0, 8), (3, 1), (4, 5)]"

text \<open>The sheet that \<open>solve_collisions\<close> leaves behind in the first example, with shyness 1.\<close>

definition ex_corrected :: Sheet where
  "ex_corrected =
     (tri_sheet ex_cur)\<lparr>vert_df := vert_df (tri_sheet [0, 1, 3 / 2, 5 / 2, 4, 5, -3, -2, - 1 / 2])\<rparr>"

text \<open>
  An example geometry, whose \<open>update_all\<close> writes the positions of the source vertices
  into the edge table, the trial vector that holds the positions of a triangle sheet,
  and a position update that returns the size of the trial vector.
\<close>

definition refresh :: "Sheet \<Rightarrow> Sheet" where
  "refresh sh =
     sh\<lparr>edge_df := map (\<lambda>(e, r). (e, r\<lparr>spos := (case map_of (vert_df sh) (srce r) of
                                                   None \<Rightarrow> spos r | Some v \<Rightarrow> pos v)\<rparr>)) (edge_df sh)\<rparr>"

definition ex_geom :: Geom where
  "ex_geom = \<lparr>update_all = refresh\<rparr>"

definition tri_pos :: "real list \<Rightarrow> real list" where
  "tri_pos xs = concat (map (\<lambda>v. [xs ! v, if v mod 3 = 1 then 1 else 0, 0]) [0..<9])"

definition ex_update :: "(real list, nat) position_update" where
  "ex_update sh geom p =
     (case QSSolver_set_pos sh geom p of
        (Inl err, s) \<Rightarrow> (Inl err, s)
      | (Inr u, s) \<Rightarrow> (Inr (length p), s))"

text \<open>The bounding boxes of the three faces in the first example, current and previous.\<close>

definition ex_bb0 :: bbox where
  "ex_bb0 = \<lparr>bb_l = (0, 0, 0), bb_h = (2, 1, 0)\<rparr>"

definition ex_bb1c :: bbox where
  "ex_bb1c = \<lparr>bb_l = (1, 0, 0), bb_h = (5, 1, 0)\<rparr>"

definition ex_bb1p :: bbox where
  "ex_bb1p = \<lparr>bb_l = (3, 0, 0), bb_h = (5, 1, 0)\<rparr>"

definition ex_bb2c :: bbox where
  "ex_bb2c = \<lparr>bb_l = (-3, 0, 0), bb_h = (1, 1, 0)\<rparr>"

definition ex_bb2p :: bbox where
  "ex_bb2p = \<lparr>bb_l = (-3, 0, 0), bb_h = (-1, 1, 0)\<rparr>"

definition ex_boxes :: CollidingBoxes where
  "ex_boxes = tri_boxes ex_cur ex_prev [(0, 1), (0, 2)]"

text \<open>
  The second example: face 0 has moved to the right, face 1 has stretched after it and
  face 2 has followed it, so that every two of the three faces intersect in the current
  mesh: edges 0 and 4, edges 0 and 7 and edges 4 and 6 cross.
\<close>

definition ex2_cur :: "real list" where
  "ex2_cur = [10, 11, 12, 3, 4, 11, 9, 10, 11]"

definition ex2_edge_pairs :: "(nat \<times> nat) list" where
  "ex2_edge_pairs = [(0, 4), (0, 7), (4, 6)]"

definition ex2_boxes :: CollidingBoxes where
  "ex2_boxes = (tri_boxes ex2_cur ex_prev [(0, 1), (0, 2), (1, 2)])\<lparr>edge_pairs := ex2_edge_pairs\<rparr>"

definition ex2_lower :: bounds where
  "ex2_lower = map (\<lambda>v. (v, (if v < 3 then Fin (11 / 2) else if v < 6 then Fin (7 / 2) else Unbounded,
                               Unbounded, Unbounded))) [0..<9]"

definition ex2_upper :: bounds where
  "ex2_upper = map (\<lambda>v. (v, (if v < 3 then Fin (5 / 2) else if v < 6 then Unbounded else Fin (5 / 2),
                               Unbounded, Unbounded))) [0..<9]"

text \<open>The bounds tables of the first example.\<close>

definition ex_lower :: bounds where
  "ex_lower = map (\<lambda>v. (v, (if v < 3 then Fin (1 / 2) else if v < 6 then Fin (5 / 2) else Unbounded,
                              Unbounded, Unbounded))) [0..<9]"

definition ex_upper :: bounds where
  "ex_upper = map (\<lambda>v. (v, (if v < 3 then Fin (3 / 2) else if v < 6 then Unbounded else Fin (- 1 / 2),
                              Unbounded, Unbounded))) [0..<9]"

text \<open>
  A small relaxation: a sheet of two active vertices, a type-1 operator that leaves
  only vertex 0 active, an energy and a gradient, and an optimizer that asks for the
  energy and then for the gradient at its initial vector and returns both.
\<close>

definition two_verts :: "bool \<Rightarrow> Sheet" where
  "two_verts act =
     \<lparr>vert_df = [(0, \<lparr>pos = (0, 0, 0), is_active = True\<rparr>), (1, \<lparr>pos = (1, 0, 0), is_active = act\<rparr>)],
      edge_df = [], shyness_setting = None\<rparr>"

definition ex_ext :: Collaborators where
  "ex_ext = \<lparr>self_intersections = (\<lambda>sh. []),
             type1 = (\<lambda>sh geom. update_all geom
                        (sh\<lparr>vert_df := map (\<lambda>(v, r). (v, r\<lparr>is_active := (v = 0)\<rparr>)) (vert_df sh)\<rparr>)),
             type3 = (\<lambda>sh geom. sh)\<rparr>"

definition ex_model :: Model where
  "ex_model = \<lparr>compute_energy = (\<lambda>sh. real (length (active_verts sh))),
               compute_gradient = (\<lambda>sh. map (\<lambda>(v, r). (v, pos r)) (vert_df sh))\<rparr>"

definition ex_minimize :: "real list \<Rightarrow> (real list \<times> real \<times> real list) optimizer" where
  "ex_minimize pos0 = Energy pos0 (\<lambda>e. Gradient pos0 (\<lambda>g. Return (pos0, e, g)))"

text \<open>
  Collaborators for the first example: the detector reports the intersecting edges, the
  type-1 operator deactivates the source vertex of every edge that the edge table places
  at a negative \<open>x\<close>, the type-3 operator does nothing.
\<close>

definition ex_t1 :: "Sheet \<Rightarrow> Geom \<Rightarrow> Sheet" where
  "ex_t1 sh geom =
     sh\<lparr>vert_df := map (\<lambda>(v, r). (v, r\<lparr>is_active :=
                 is_active r \<and> \<not> list_ex (\<lambda>(e, er). srce er = v \<and> vget (spos er) X < 0) (edge_df sh)\<rparr>))
              (vert_df sh)\<rparr>"

definition ex_ext_t1 :: Collaborators where
  "ex_ext_t1 = \<lparr>self_intersections = (\<lambda>sh. ex_edge_pairs), type1 = ex_t1, type3 = (\<lambda>sh geom. sh)\<rparr>"

text \<open>The mesh that the composed position update leaves in the first example.\<close>

definition ex_final :: Sheet where
  "ex_final =
     (tri_sheet [0, 1, 3 / 2, 5 / 2, 4, 5, -3, -2, - 1 / 2])
       \<lparr>vert_df := map (\<lambda>(v, r). (v, r\<lparr>is_active := v < 6\<rparr>))
                      (vert_df (tri_sheet [0, 1, 3 / 2, 5 / 2, 4, 5, -3, -2, - 1 / 2]))\<rparr>"

text \<open>
  The third example: two triangles in the plane \<open>z = 0\<close>. Face 0, on the vertices 0,
  1, 2, rests; face 1, on the vertices 3, 4, 5, was above and to the left of it and has
  moved into it, so that edge 3 crosses edge 2.
\<close>

definition tri_mesh :: "real vec3 list \<Rightarrow> Sheet" where
  "tri_mesh ps =
     \<lparr>vert_df = map (\<lambda>v. (v, \<lparr>pos = ps ! v, is_active = True\<rparr>)) [0..<length ps],
      edge_df = map (\<lambda>e. (e, \<lparr>srce = e, trgt = 3 * (e div 3) + (e + 1) mod 3, face = e div 3,
                                spos = ps ! e\<rparr>)) [0..<length ps],
      shyness_setting = Some 1\<rparr>"

definition ex3_cur :: "real vec3 list" where
  "ex3_cur = [(4, 0, 0), (8, 0, 0), (6, 4, 0), (4, 2, 0), (6, 2, 0), (5, 4, 0)]"

definition ex3_prev :: "real vec3 list" where
  "ex3_prev = [(4, 0, 0), (8, 0, 0), (6, 4, 0), (0, 6, 0), (2, 6, 0), (1, 8, 0)]"

definition ex3_boxes :: CollidingBoxes where
  "ex3_boxes = \<lparr>sheet = tri_mesh ex3_cur, edge_pairs = [(3, 2)], face_pairs = [(0, 1)],
                 edge_buffer = zip [0..<6] ex3_prev\<rparr>"

definition ex3_bb0 :: bbox where
  "ex3_bb0 = \<lparr>bb_l = (4, 0, 0), bb_h = (8, 4, 0)\<rparr>"

definition ex3_bb1c :: bbox where
  "ex3_bb1c = \<lparr>bb_l = (4, 2, 0), bb_h = (6, 4, 0)\<rparr>"

definition ex3_bb1p :: bbox where
  "ex3_bb1p = \<lparr>bb_l = (0, 6, 0), bb_h = (2, 8, 0)\<rparr>"

section \<open>Properties of the colliding face pairs\<close>

lemma set_unique [simp]: "set (unique xs) = set xs"
  by (induction xs) auto

lemma distinct_unique [simp]: "distinct (unique xs)"
  by (induction xs) auto

lemma frozenset_pair:
  "frozenset [a, b] = (if a = b then [a] else if a < b then [a, b] else [b, a])"
  by (auto simp: frozenset_def)

lemma face_pairs_of_set:
  "face_pairs_of df eps = Inr fps \<Longrightarrow>
   set fps = {(f0, f1). \<exists>e0 e1. (e0, e1) \<in> set eps \<and> loc_face df e0 = Inr f0 \<and> loc_face df e1 = Inr f1}"
proof (induction eps arbitrary: fps)
  case Nil
  then show ?case by simp
next
  case (Cons p eps)
  obtain e0 e1 where p: "p = (e0, e1)" by (cases p)
  from Cons.prems p obtain f0 f1 fs where
    f0: "loc_face df e0 = Inr f0" and f1: "loc_face df e1 = Inr f1"
    and fs: "face_pairs_of df eps = Inr fs" and fps: "fps = (f0, f1) # fs"
    by (auto split: sum.splits)
  from Cons.IH [OF fs] f0 f1 show ?case
    unfolding fps p by auto
qed

lemma face_pairs_of_total:
  "(\<forall>(e0, e1) \<in> set eps. e0 \<in> fst ` set df \<and> e1 \<in> fst ` set df) \<Longrightarrow>
   \<exists>fps. face_pairs_of df eps = Inr fps"
proof (induction eps)
  case Nil
  then show ?case by simp
next
  case (Cons p eps)
  obtain e0 e1 where p: "p = (e0, e1)" by (cases p)
  from Cons.prems p have "map_of df e0 \<noteq> None" "map_of df e1 \<noteq> None"
    by (auto simp: map_of_eq_None_iff)
  then obtain f0 f1 where "loc_face df e0 = Inr f0" "loc_face df e1 = Inr f1"
    by (auto simp: loc_face_def)
  moreover from Cons obtain fs where "face_pairs_of df eps = Inr fs" by auto
  ultimately show ?case unfolding p by simp
qed

lemma pair_of_frozenset:
  "length (frozenset [a, b]) = 2 \<longleftrightarrow> a \<noteq> b"
  by (simp add: frozenset_pair)

lemma unordered_of_frozenset:
  "a \<noteq> b \<Longrightarrow> unordered (frozenset [a, b] ! 0, frozenset [a, b] ! 1) = {a, b}"
  by (auto simp: frozenset_pair unordered_def)

lemma frozenset_pair_inj:
  "a \<noteq> b \<Longrightarrow> c \<noteq> d \<Longrightarrow> {a, b} = {c, d} \<Longrightarrow> frozenset [a, b] = frozenset [c, d]"
  by (auto simp: frozenset_pair doubleton_eq_iff)

lemma mem_unique_pairs:
  "u \<in> set (filter (\<lambda>pair. length pair = 2) (unique (map (\<lambda>(f0, f1). frozenset [f0, f1]) raw)))
   \<longleftrightarrow> (\<exists>a b. (a, b) \<in> set raw \<and> a \<noteq> b \<and> u = frozenset [a, b])"
proof
  assume "u \<in> set (filter (\<lambda>pair. length pair = 2) (unique (map (\<lambda>(f0, f1). frozenset [f0, f1]) raw)))"
  then obtain p where p: "p \<in> set raw" and u: "u = (\<lambda>(f0, f1). frozenset [f0, f1]) p" and l: "length u = 2"
    by auto
  obtain a b where ab: "p = (a, b)" by (cases p)
  from u ab have u': "u = frozenset [a, b]" by simp
  with l have "a \<noteq> b" using pair_of_frozenset [of a b] by simp
  with p ab u' show "\<exists>a b. (a, b) \<in> set raw \<and> a \<noteq> b \<and> u = frozenset [a, b]" by blast
next
  assume "\<exists>a b. (a, b) \<in> set raw \<and> a \<noteq> b \<and> u = frozenset [a, b]"
  then obtain a b where ab: "(a, b) \<in> set raw" "a \<noteq> b" "u = frozenset [a, b]" by blast
  from ab(2) have "length (frozenset [a, b]) = 2" using pair_of_frozenset [of a b] by simp
  moreover from ab(1) have "frozenset [a, b] \<in> (\<lambda>(f0, f1). frozenset [f0, f1]) ` set raw"
    by (rule rev_image_eqI) simp
  ultimately show "u \<in> set (filter (\<lambda>pair. length pair = 2) (unique (map (\<lambda>(f0, f1). frozenset [f0, f1]) raw)))"
    using ab(3) by simp
qed

lemma fst_snd_frozenset:
  "a \<noteq> b \<Longrightarrow> frozenset [a, b] ! 0 \<noteq> frozenset [a, b] ! 1"
  by (simp add: frozenset_pair)

text \<open>
  C6. The colliding face pairs are the owning faces of the intersecting edge pairs,
  as unordered pairs: every returned pair has two distinct faces (no self-pair), no
  unordered pair is returned twice (no duplicate up to order), and the unordered
  pairs returned are exactly the pairs of distinct owning faces of the edge pairs.
  When every edge label is a row of the edge table the computation returns.
\<close>

theorem get_intersecting_faces_unique_pairs:
  "(get_intersecting_faces df eps = Inr fps \<longrightarrow>
      (\<forall>p \<in> set fps. fst p \<noteq> snd p) \<and>
      distinct (map unordered fps) \<and>
      unordered ` set fps =
        {{f0, f1} | f0 f1. f0 \<noteq> f1 \<and>
           (\<exists>e0 e1. (e0, e1) \<in> set eps \<and> loc_face df e0 = Inr f0 \<and> loc_face df e1 = Inr f1)}) \<and>
   ((\<forall>(e0, e1) \<in> set eps. e0 \<in> fst ` set df \<and> e1 \<in> fst ` set df) \<longrightarrow>
      (\<exists>fps. get_intersecting_faces df eps = Inr fps))"
proof (intro conjI impI)
  assume "\<forall>(e0, e1) \<in> set eps. e0 \<in> fst ` set df \<and> e1 \<in> fst ` set df"
  from face_pairs_of_total [OF this] obtain raw where "face_pairs_of df eps = Inr raw" ..
  then show "\<exists>fps. get_intersecting_faces df eps = Inr fps"
    by (simp add: get_intersecting_faces_def)
next
  assume r: "get_intersecting_faces df eps = Inr fps"
  then obtain raw where raw: "face_pairs_of df eps = Inr raw"
    by (cases "face_pairs_of df eps") (simp_all add: get_intersecting_faces_def)
  define ups where
    "ups = filter (\<lambda>pair. length pair = 2) (unique (map (\<lambda>(f0, f1). frozenset [f0, f1]) raw))"
  define mk where "mk = (\<lambda>pair :: nat list. (pair ! 0, pair ! 1))"
  from r raw have fps: "fps = map mk ups"
    by (simp add: get_intersecting_faces_def ups_def mk_def)
  have ups_set: "u \<in> set ups \<longleftrightarrow> (\<exists>a b. (a, b) \<in> set raw \<and> a \<noteq> b \<and> u = frozenset [a, b])" for u
    unfolding ups_def by (rule mem_unique_pairs)
  have ups_dist: "distinct ups" unfolding ups_def by simp
  have un: "unordered (mk (frozenset [a, b])) = {a, b}" if "a \<noteq> b" for a b
    using unordered_of_frozenset [OF that] by (simp add: mk_def)
  show "\<forall>p \<in> set fps. fst p \<noteq> snd p"
  proof
    fix p assume "p \<in> set fps"
    then obtain u where u: "u \<in> set ups" and p: "p = mk u" unfolding fps by auto
    from u obtain a b where "a \<noteq> b" "u = frozenset [a, b]" unfolding ups_set by blast
    with p show "fst p \<noteq> snd p" using fst_snd_frozenset [of a b] by (simp add: mk_def)
  qed
  have "inj_on (unordered \<circ> mk) (set ups)"
  proof (rule inj_onI)
    fix u v assume u: "u \<in> set ups" and v: "v \<in> set ups"
      and eq: "(unordered \<circ> mk) u = (unordered \<circ> mk) v"
    from u obtain a b where a: "u = frozenset [a, b]" "a \<noteq> b" unfolding ups_set by blast
    from v obtain c d where c: "v = frozenset [c, d]" "c \<noteq> d" unfolding ups_set by blast
    from eq have "unordered (mk (frozenset [a, b])) = unordered (mk (frozenset [c, d]))"
      unfolding a(1) c(1) by simp
    then have "{a, b} = {c, d}" unfolding un [OF a(2)] un [OF c(2)] .
    from frozenset_pair_inj [OF a(2) c(2) this] show "u = v" unfolding a(1) c(1) .
  qed
  with ups_dist show "distinct (map unordered fps)"
    unfolding fps by (simp add: distinct_map)
  have "unordered ` set fps = {{f0, f1} | f0 f1. f0 \<noteq> f1 \<and> (f0, f1) \<in> set raw}"
  proof (intro set_eqI iffI)
    fix s assume "s \<in> unordered ` set fps"
    then obtain u where u: "u \<in> set ups" and s: "s = unordered (mk u)"
      unfolding fps by auto
    from u obtain a b where ab: "u = frozenset [a, b]" "(a, b) \<in> set raw" "a \<noteq> b"
      unfolding ups_set by blast
    from s have "s = {a, b}" unfolding ab(1) un [OF ab(3)] .
    with ab show "s \<in> {{f0, f1} | f0 f1. f0 \<noteq> f1 \<and> (f0, f1) \<in> set raw}" by blast
  next
    fix s assume "s \<in> {{f0, f1} | f0 f1. f0 \<noteq> f1 \<and> (f0, f1) \<in> set raw}"
    then obtain a b where ab: "s = {a, b}" "(a, b) \<in> set raw" "a \<noteq> b" by blast
    then have "frozenset [a, b] \<in> set ups" unfolding ups_set by blast
    then have "mk (frozenset [a, b]) \<in> set fps" unfolding fps by simp
    then have "unordered (mk (frozenset [a, b])) \<in> unordered ` set fps" by (rule imageI)
    then show "s \<in> unordered ` set fps" unfolding ab(1) un [OF ab(3)] .
  qed
  also have "\<dots> = {{f0, f1} | f0 f1. f0 \<noteq> f1 \<and>
           (\<exists>e0 e1. (e0, e1) \<in> set eps \<and> loc_face df e0 = Inr f0 \<and> loc_face df e1 = Inr f1)}"
    unfolding face_pairs_of_set [OF raw] by simp
  finally show "unordered ` set fps =
        {{f0, f1} | f0 f1. f0 \<noteq> f1 \<and>
           (\<exists>e0 e1. (e0, e1) \<in> set eps \<and> loc_face df e0 = Inr f0 \<and> loc_face df e1 = Inr f1)}" .
qed

theorem get_intersecting_faces_unique_pairs_witness:
  "get_intersecting_faces (edge_df (tri_sheet ex_cur)) ex_edge_pairs = Inr [(0, 1), (0, 2)] \<and>
   fst ` set ex_edge_pairs \<union> snd ` set ex_edge_pairs \<subseteq> fst ` set (edge_df (tri_sheet ex_cur)) \<and>
   list_all (\<lambda>p. fst p \<noteq> snd p) [(0::nat, 1::nat), (0, 2)] \<and>
   distinct (map unordered [(0, 1), (0, 2)]) \<and>
   (\<exists>fps. get_intersecting_faces (edge_df (tri_sheet ex_cur)) ex_edge_pairs = Inr fps)"
proof -
  have faces: "get_intersecting_faces (edge_df (tri_sheet ex_cur)) ex_edge_pairs = Inr [(0, 1), (0, 2)]"
    by code_simp
  have sub: "fst ` set ex_edge_pairs \<union> snd ` set ex_edge_pairs \<subseteq> fst ` set (edge_df (tri_sheet ex_cur))"
    by code_simp
  then have labels: "\<forall>(e0, e1) \<in> set ex_edge_pairs.
       e0 \<in> fst ` set (edge_df (tri_sheet ex_cur)) \<and> e1 \<in> fst ` set (edge_df (tri_sheet ex_cur))"
    by force
  note t = get_intersecting_faces_unique_pairs
    [of "edge_df (tri_sheet ex_cur)" ex_edge_pairs "[(0, 1), (0, 2)]"]
  note b = t [THEN conjunct1, THEN mp, OF faces]
  note d = t [THEN conjunct2, THEN mp, OF labels]
  from b [THEN conjunct1] have ne: "list_all (\<lambda>p. fst p \<noteq> snd p) [(0::nat, 1::nat), (0, 2)]"
    unfolding list_all_iff .
  show ?thesis
    by (intro conjI) (rule faces sub ne b [THEN conjunct2, THEN conjunct1] d)+
qed

section \<open>Properties of the collision resolver\<close>

lemma limits_loop_no_plane:
  "\<forall>fp \<in> set fps. collision_plane boxes fp shyness = Inr None \<Longrightarrow>
   limits_loop boxes shyness fps st = Inr st"
proof (induction fps)
  case Nil
  show ?case by simp
next
  case (Cons fp fps)
  obtain lb ub pf where st: "st = (lb, ub, pf)" by (cases st)
  from Cons.prems have "collision_plane boxes fp shyness = Inr None" by simp
  moreover from Cons have "limits_loop boxes shyness fps st = Inr st" by simp
  ultimately show ?case unfolding st by simp
qed

lemma update_bounds_keys:
  "update_bounds op frame tbl = Inr tbl' \<Longrightarrow> map fst tbl' = map fst tbl"
  by (auto simp: update_bounds_def split: if_splits)

lemma limits_loop_result:
  "limits_loop boxes shyness fps (lb, ub, pf) = Inr (lb', ub', pf') \<Longrightarrow>
   (\<forall>fp \<in> set fps. \<exists>r. collision_plane boxes fp shyness = Inr r) \<and>
   pf' = (pf \<or> (\<exists>fp \<in> set fps. \<exists>pl. collision_plane boxes fp shyness = Inr (Some pl))) \<and>
   map fst lb' = map fst lb \<and> map fst ub' = map fst ub"
proof (induction fps arbitrary: lb ub pf)
  case Nil
  then show ?case by simp
next
  case (Cons fp fps)
  show ?case
  proof (cases "collision_plane boxes fp shyness")
    case (Inl err)
    with Cons.prems show ?thesis by simp
  next
    case (Inr r)
    show ?thesis
    proof (cases r)
      case None
      with Inr Cons.prems have "limits_loop boxes shyness fps (lb, ub, pf) = Inr (lb', ub', pf')"
        by simp
      from Cons.IH [OF this] Inr None show ?thesis by simp
    next
      case (Some pl)
      obtain lower upper where pl: "pl = (lower, upper)" by (cases pl)
      from Cons.prems Inr Some pl obtain lb1 ub1 where
        l: "update_bounds maximum_lower lower lb = Inr lb1" and
        u: "update_bounds minimum_upper upper ub = Inr ub1" and
        rest: "limits_loop boxes shyness fps (lb1, ub1, True) = Inr (lb', ub', pf')"
        by (auto split: sum.splits)
      from Cons.IH [OF rest] update_bounds_keys [OF l] update_bounds_keys [OF u] Inr Some
      show ?thesis by auto
    qed
  qed
qed

lemma face_bbox_nonempty: "face_bbox ps = Inr bb \<Longrightarrow> ps \<noteq> []"
  by (auto simp: face_bbox_def)

lemma collision_plane_face_edges:
  "collision_plane boxes (f0, f1) shyness = Inr r \<Longrightarrow> face_edges (edge_df (sheet boxes)) f0 \<noteq> []"
  by (auto simp: collision_plane_def Let_def split: sum.splits dest!: face_bbox_nonempty)

lemma unique_Nil [simp]: "unique xs = [] \<longleftrightarrow> xs = []"
  by (cases xs) simp_all

lemma colliding_verts_nonempty:
  assumes "(f0, f1) \<in> set (face_pairs boxes)" and "face_edges (edge_df (sheet boxes)) f0 \<noteq> []"
  shows "colliding_verts boxes \<noteq> []"
proof -
  from assms(2) obtain e r where er: "(e, r) \<in> set (edge_df (sheet boxes))" "face r = f0"
    by (auto simp: face_edges_def filter_empty_conv)
  from assms(1) have "f0 \<in> set (ravel (face_pairs boxes))"
    by (force simp: ravel_def)
  with er have "(e, r) \<in> set (filter (\<lambda>(e, r). face r \<in> set (ravel (face_pairs boxes))) (edge_df (sheet boxes)))"
    by simp
  then have "filter (\<lambda>(e, r). face r \<in> set (ravel (face_pairs boxes))) (edge_df (sheet boxes)) \<noteq> []"
    by (metis empty_iff empty_set)
  then show ?thesis by (simp add: colliding_verts_def)
qed

text \<open>
  C7. When no colliding face pair yields a plane (every pair takes the warning branch of
  \<open>_collision_plane\<close>, or there is no pair at all), \<open>solve_collisions\<close> raises no
  error, returns 0 and leaves the sheet, and so every vertex position, as it was.
\<close>

theorem solve_collisions_no_plane:
  "\<forall>fp \<in> set (face_pairs boxes). collision_plane boxes fp shyness = Inr None \<Longrightarrow>
   solve_collisions boxes shyness = Inr (Some 0, sheet boxes)"
proof -
  assume "\<forall>fp \<in> set (face_pairs boxes). collision_plane boxes fp shyness = Inr None"
  from limits_loop_no_plane [OF this]
  have "aggregate_bounds boxes shyness =
          Inr (init_bounds (colliding_verts boxes), init_bounds (colliding_verts boxes), False)"
    by (simp add: aggregate_bounds_def Let_def)
  then show ?thesis by (simp add: solve_collisions_def)
qed

theorem solve_collisions_no_plane_witness:
  "list_all (\<lambda>fp. collision_plane (tri_boxes ex_prev ex_prev [(0, 1), (0, 2)]) fp 1 = Inr None)
     (face_pairs (tri_boxes ex_prev ex_prev [(0, 1), (0, 2)])) \<and>
   solve_collisions (tri_boxes ex_prev ex_prev [(0, 1), (0, 2)]) 1
     = Inr (Some 0, sheet (tri_boxes ex_prev ex_prev [(0, 1), (0, 2)]))"
proof -
  have h: "list_all (\<lambda>fp. collision_plane (tri_boxes ex_prev ex_prev [(0, 1), (0, 2)]) fp 1 = Inr None)
     (face_pairs (tri_boxes ex_prev ex_prev [(0, 1), (0, 2)]))"
    by code_simp
  then have "\<forall>fp \<in> set (face_pairs (tri_boxes ex_prev ex_prev [(0, 1), (0, 2)])).
      collision_plane (tri_boxes ex_prev ex_prev [(0, 1), (0, 2)]) fp 1 = Inr None"
    unfolding list_all_iff .
  from solve_collisions_no_plane [OF this] h show ?thesis by (intro conjI)
qed

text \<open>
  C10. A call of \<open>solve_collisions\<close> that returns gives the integer 0 exactly when no
  face pair yields a collision plane, and \<open>None\<close> (the method ends without a
  \<open>return\<close>) exactly when at least one pair yields a plane and the corrections are
  applied: no count of the corrections reaches the caller.
\<close>

theorem solve_collisions_returns:
  assumes "solve_collisions boxes shyness = Inr (ret, sh)"
  shows "(ret = Some 0 \<longleftrightarrow> (\<forall>fp \<in> set (face_pairs boxes). collision_plane boxes fp shyness = Inr None)) \<and>
         (ret = None \<longleftrightarrow> (\<exists>fp \<in> set (face_pairs boxes). \<exists>pl. collision_plane boxes fp shyness = Inr (Some pl)))"
proof -
  from assms obtain lb ub pf where agg: "aggregate_bounds boxes shyness = Inr (lb, ub, pf)"
    by (cases "aggregate_bounds boxes shyness") (auto simp: solve_collisions_def)
  then have loop: "limits_loop boxes shyness (face_pairs boxes)
      (init_bounds (colliding_verts boxes), init_bounds (colliding_verts boxes), False) = Inr (lb, ub, pf)"
    by (simp add: aggregate_bounds_def Let_def)
  note res = limits_loop_result [OF loop]
  from res have all: "\<forall>fp \<in> set (face_pairs boxes). \<exists>r. collision_plane boxes fp shyness = Inr r"
    and pf: "pf = (\<exists>fp \<in> set (face_pairs boxes). \<exists>pl. collision_plane boxes fp shyness = Inr (Some pl))"
    and len: "length ub = length (colliding_verts boxes)"
    by (simp_all add: init_bounds_def) (metis length_map)
  show ?thesis
  proof (cases pf)
    case False
    with assms agg have "ret = Some 0" by (simp add: solve_collisions_def)
    moreover from False pf all have "\<forall>fp \<in> set (face_pairs boxes). collision_plane boxes fp shyness = Inr None"
      by (metis not_Some_eq)
    ultimately show ?thesis using False pf by simp
  next
    case True
    with pf obtain fp pl where fp: "fp \<in> set (face_pairs boxes)" "collision_plane boxes fp shyness = Inr (Some pl)"
      by blast
    obtain f0 f1 where f: "fp = (f0, f1)" by (cases fp)
    from fp f have "colliding_verts boxes \<noteq> []"
      using colliding_verts_nonempty collision_plane_face_edges by blast
    with len have "length ub \<noteq> 0" by simp
    with assms agg True have "ret = None"
      by (auto simp: solve_collisions_def Let_def split: sum.splits)
    moreover from fp(2) have "collision_plane boxes fp shyness \<noteq> Inr None" by simp
    with fp(1) have "\<not> (\<forall>fp \<in> set (face_pairs boxes). collision_plane boxes fp shyness = Inr None)"
      by blast
    ultimately show ?thesis using True pf by simp
  qed
qed

theorem solve_collisions_returns_witness:
  "solve_collisions (tri_boxes ex_cur ex_prev [(0, 1), (0, 2)]) 1 = Inr (None, ex_corrected) \<and>
   (\<exists>fp \<in> set (face_pairs (tri_boxes ex_cur ex_prev [(0, 1), (0, 2)])).
      \<exists>pl. collision_plane (tri_boxes ex_cur ex_prev [(0, 1), (0, 2)]) fp 1 = Inr (Some pl))"
proof -
  have h: "solve_collisions (tri_boxes ex_cur ex_prev [(0, 1), (0, 2)]) 1 = Inr (None, ex_corrected)"
    by code_simp
  from solve_collisions_returns [OF h, THEN conjunct2] h show ?thesis by simp
qed

section \<open>Properties of the collision-correcting decorator\<close>

text \<open>
  C9. The collision-correcting wrapper returns the value of the wrapped position update:
  a value the wrapper returns is the value the wrapped call returned, and when the
  wrapped call returns \<open>res\<close> the wrapper returns \<open>res\<close> too, both when no intersection
  is detected and when intersections are detected and resolved.
\<close>

theorem with_collision_correction_returns:
  "(with_collision_correction si func sh geom args = (Inr res, sh') \<longrightarrow>
      (\<exists>sh1. func sh geom args = (Inr res, sh1))) \<and>
   (func sh geom args = (Inr res, sh1) \<and> si sh1 = [] \<longrightarrow>
      with_collision_correction si func sh geom args = (Inr res, update_all geom sh1)) \<and>
   (func sh geom args = (Inr res, sh1) \<and> si sh1 \<noteq> [] \<and>
    CollidingBoxes_init sh1 (map (\<lambda>(v, r). (v, pos r)) (vert_df sh)) (si sh1) = Inr boxes \<and>
    solve_collisions boxes (case shyness_setting sh1 of None \<Rightarrow> 1 / 10 ^ 10 | Some s \<Rightarrow> s) = Inr (n, sh2) \<longrightarrow>
      with_collision_correction si func sh geom args = (Inr res, update_all geom sh2))"
proof (intro conjI impI)
  assume w: "with_collision_correction si func sh geom args = (Inr res, sh')"
  obtain out sh1 where f: "func sh geom args = (out, sh1)" by (cases "func sh geom args")
  show "\<exists>sh1. func sh geom args = (Inr res, sh1)"
  proof (cases out)
    case (Inl err)
    with w f show ?thesis by (simp add: with_collision_correction_def)
  next
    case (Inr r)
    with w f have "r = res"
      by (auto simp: with_collision_correction_def Let_def split: if_splits sum.splits)
    with f Inr show ?thesis by simp
  qed
next
  assume "func sh geom args = (Inr res, sh1) \<and> si sh1 = []"
  then show "with_collision_correction si func sh geom args = (Inr res, update_all geom sh1)"
    by (simp add: with_collision_correction_def)
next
  assume "func sh geom args = (Inr res, sh1) \<and> si sh1 \<noteq> [] \<and>
    CollidingBoxes_init sh1 (map (\<lambda>(v, r). (v, pos r)) (vert_df sh)) (si sh1) = Inr boxes \<and>
    solve_collisions boxes (case shyness_setting sh1 of None \<Rightarrow> 1 / 10 ^ 10 | Some s \<Rightarrow> s) = Inr (n, sh2)"
  then show "with_collision_correction si func sh geom args = (Inr res, update_all geom sh2)"
    by (simp add: with_collision_correction_def)
qed

theorem with_collision_correction_returns_witness:
  "ex_update (tri_sheet ex_prev) ex_geom (tri_pos ex_cur) = (Inr 27, tri_sheet ex_cur) \<and>
   with_collision_correction (\<lambda>sh. []) ex_update (tri_sheet ex_prev) ex_geom (tri_pos ex_cur)
     = (Inr 27, tri_sheet ex_cur) \<and>
   with_collision_correction (\<lambda>sh. ex_edge_pairs) ex_update (tri_sheet ex_prev) ex_geom (tri_pos ex_cur)
     = (Inr 27, tri_sheet [0, 1, 3 / 2, 5 / 2, 4, 5, -3, -2, - 1 / 2]) \<and>
   (\<exists>sh1. ex_update (tri_sheet ex_prev) ex_geom (tri_pos ex_cur) = (Inr 27, sh1))"
proof -
  let ?boxes = "(tri_boxes ex_cur ex_prev [(0, 1), (0, 2)])\<lparr>edge_pairs := ex_edge_pairs\<rparr>"
  have f: "ex_update (tri_sheet ex_prev) ex_geom (tri_pos ex_cur) = (Inr 27, tri_sheet ex_cur)"
    by code_simp
  have r: "update_all ex_geom (tri_sheet ex_cur) = tri_sheet ex_cur"
    by code_simp
  have i: "CollidingBoxes_init (tri_sheet ex_cur) (map (\<lambda>(v, r). (v, pos r)) (vert_df (tri_sheet ex_prev)))
             ex_edge_pairs = Inr ?boxes"
    by code_simp
  have s: "solve_collisions ?boxes (case shyness_setting (tri_sheet ex_cur) of None \<Rightarrow> 1 / 10 ^ 10 | Some s \<Rightarrow> s)
             = Inr (None, ex_corrected)"
    by code_simp
  have r': "update_all ex_geom ex_corrected = tri_sheet [0, 1, 3 / 2, 5 / 2, 4, 5, -3, -2, - 1 / 2]"
    by code_simp
  have ne: "ex_edge_pairs \<noteq> []"
    by code_simp
  have a: "with_collision_correction (\<lambda>sh. []) ex_update (tri_sheet ex_prev) ex_geom (tri_pos ex_cur)
     = (Inr 27, tri_sheet ex_cur)"
    using with_collision_correction_returns
      [of "\<lambda>sh. []" ex_update "tri_sheet ex_prev" ex_geom "tri_pos ex_cur" 27 _ "tri_sheet ex_cur",
        THEN conjunct2, THEN conjunct1] f r by simp
  have b: "with_collision_correction (\<lambda>sh. ex_edge_pairs) ex_update (tri_sheet ex_prev) ex_geom (tri_pos ex_cur)
     = (Inr 27, tri_sheet [0, 1, 3 / 2, 5 / 2, 4, 5, -3, -2, - 1 / 2])"
    using with_collision_correction_returns
      [of "\<lambda>sh. ex_edge_pairs" ex_update "tri_sheet ex_prev" ex_geom "tri_pos ex_cur" 27 _
          "tri_sheet ex_cur" ?boxes None ex_corrected,
        THEN conjunct2, THEN conjunct2] f i s ne unfolding r' by simp
  have c: "\<exists>sh1. ex_update (tri_sheet ex_prev) ex_geom (tri_pos ex_cur) = (Inr 27, sh1)"
    using with_collision_correction_returns
      [of "\<lambda>sh. ex_edge_pairs" ex_update "tri_sheet ex_prev" ex_geom "tri_pos ex_cur" 27,
        THEN conjunct1] b by simp
  from f a b c show ?thesis by (intro conjI)
qed

lemma refresh_idem: "refresh (refresh s) = refresh s"
  by (simp add: refresh_def comp_def case_prod_unfold cong: option.case_cong)

text \<open>
  C8. When the intersection detector reports no intersecting edge pair on the mesh that
  the position update leaves, and \<open>update_all\<close> is idempotent, the collision-wrapped
  \<open>_set_pos\<close> leaves the same mesh and returns the same value as \<open>_set_pos\<close> alone;
  so does the solver's \<open>set_pos\<close> with collisions enabled, against the one without.
\<close>

theorem collision_wrapper_transparent:
  assumes idem: "\<And>s. update_all geom (update_all geom s) = update_all geom s"
    and none: "self_intersections ext (snd (QSSolver_set_pos eptm geom p)) = []"
  shows "with_collision_correction (self_intersections ext) QSSolver_set_pos eptm geom p
           = QSSolver_set_pos eptm geom p \<and>
         set_pos (QSSolver_init ext True False False) eptm geom p
           = set_pos (QSSolver_init ext False False False) eptm geom p"
proof -
  obtain out s1 where f: "QSSolver_set_pos eptm geom p = (out, s1)"
    by (cases "QSSolver_set_pos eptm geom p")
  have "with_collision_correction (self_intersections ext) QSSolver_set_pos eptm geom p = (out, s1)"
  proof (cases out)
    case (Inl err)
    with f show ?thesis by (simp add: with_collision_correction_def)
  next
    case (Inr u)
    with f obtain s0 where s1: "s1 = update_all geom s0"
      by (auto simp: QSSolver_set_pos_def Let_def split: if_splits)
    from none f have "self_intersections ext s1 = []" by simp
    with f Inr have "with_collision_correction (self_intersections ext) QSSolver_set_pos eptm geom p
        = (Inr u, update_all geom s1)"
      by (simp add: with_collision_correction_def)
    with s1 idem Inr show ?thesis by simp
  qed
  with f show ?thesis by (simp add: QSSolver_init_def)
qed

theorem collision_wrapper_transparent_witness:
  "self_intersections \<lparr>self_intersections = (\<lambda>sh. []), type1 = (\<lambda>sh geom. sh), type3 = (\<lambda>sh geom. sh)\<rparr>
     (snd (QSSolver_set_pos (tri_sheet ex_prev) ex_geom (tri_pos ex_cur))) = [] \<and>
   with_collision_correction (\<lambda>sh. []) QSSolver_set_pos (tri_sheet ex_prev) ex_geom (tri_pos ex_cur)
     = (Inr (), tri_sheet ex_cur)"
proof -
  let ?ext = "\<lparr>self_intersections = (\<lambda>sh. []), type1 = (\<lambda>sh geom. sh), type3 = (\<lambda>sh geom. sh)\<rparr>"
  have idem: "\<And>s. update_all ex_geom (update_all ex_geom s) = update_all ex_geom s"
    by (simp add: ex_geom_def refresh_idem)
  have none: "self_intersections ?ext (snd (QSSolver_set_pos (tri_sheet ex_prev) ex_geom (tri_pos ex_cur))) = []"
    by simp
  have f: "QSSolver_set_pos (tri_sheet ex_prev) ex_geom (tri_pos ex_cur) = (Inr (), tri_sheet ex_cur)"
    by code_simp
  from collision_wrapper_transparent [of ex_geom ?ext "tri_sheet ex_prev" "tri_pos ex_cur", OF idem none] f none
  show ?thesis by simp
qed

section \<open>The collision plane of a face pair\<close>

lemma set_coords [simp]: "set coords = UNIV"
proof -
  have "c \<in> set coords" for c by (cases c) (simp_all add: coords_def)
  then show ?thesis by blast
qed

lemma vget_vmap2 [simp]: "vget (vmap2 f a b) c = f (vget a c) (vget b c)"
  by (cases a rule: prod_cases3; cases b rule: prod_cases3; cases c) simp_all

lemma crossing_of_sign_change:
  fixes a_prev a_cur b_prev b_cur :: real
  assumes sc: "(b_cur - a_cur) * (b_prev - a_prev) < 0"
  shows "crossing a_prev a_cur b_prev b_cur
           ((a_prev * (b_cur - b_prev) - b_prev * (a_cur - a_prev)) / ((b_cur - b_prev) - (a_cur - a_prev)))"
proof -
  define u where "u = b_prev - a_prev"
  define w where "w = b_cur - a_cur"
  from sc have uw: "w * u < 0" by (simp add: u_def w_def)
  then have cases: "(w < 0 \<and> 0 < u) \<or> (0 < w \<and> u < 0)"
    by (auto simp: mult_less_0_iff)
  then have d: "u - w \<noteq> 0" by auto
  define t where "t = u / (u - w)"
  from cases have t0: "0 < t" unfolding t_def by (auto simp: zero_less_divide_iff)
  from cases have t1: "t < 1" unfolding t_def by (auto simp: divide_less_eq_1)
  have den: "(b_cur - b_prev) - (a_cur - a_prev) = - (u - w)" by (simp add: u_def w_def)
  have pa: "(a_prev * (b_cur - b_prev) - b_prev * (a_cur - a_prev)) / ((b_cur - b_prev) - (a_cur - a_prev))
        = a_prev + t * (a_cur - a_prev)"
    unfolding den t_def using d by (simp add: field_simps u_def w_def)
  have pb: "(a_prev * (b_cur - b_prev) - b_prev * (a_cur - a_prev)) / ((b_cur - b_prev) - (a_cur - a_prev))
        = b_prev + t * (b_cur - b_prev)"
    unfolding den t_def using d by (simp add: field_simps u_def w_def)
  from t0 t1 pa pb show ?thesis unfolding crossing_def by blast
qed

lemma crossing_l1h0:
  "sign_change_l1h0 bb0c bb1c bb0p bb1p c \<Longrightarrow>
   crossing (vget (bb_h bb0p) c) (vget (bb_h bb0c) c) (vget (bb_l bb1p) c) (vget (bb_l bb1c) c)
     (plane_coords_l1h0 bb0c bb1c bb0p bb1p c)"
  using crossing_of_sign_change
    [of "vget (bb_l bb1c) c" "vget (bb_h bb0c) c" "vget (bb_l bb1p) c" "vget (bb_h bb0p) c"]
  by (simp add: sign_change_l1h0_def plane_coords_l1h0_def bbox_sub_def Let_def)

lemma crossing_l0h1:
  "sign_change_l0h1 bb0c bb1c bb0p bb1p c \<Longrightarrow>
   crossing (vget (bb_h bb1p) c) (vget (bb_h bb1c) c) (vget (bb_l bb0p) c) (vget (bb_l bb0c) c)
     (plane_coords_l0h1 bb0c bb1c bb0p bb1p c)"
  using crossing_of_sign_change
    [of "vget (bb_l bb0c) c" "vget (bb_h bb1c) c" "vget (bb_l bb0p) c" "vget (bb_h bb1p) c"]
  by (simp add: sign_change_l0h1_def plane_coords_l0h1_def bbox_sub_def Let_def)

lemma was_left_now_overlapping:
  "vget (bb_h bb0p) c < vget (bb_l bb1p) c \<Longrightarrow> vget (bb_l bb1c) c < vget (bb_h bb0c) c \<Longrightarrow>
   sign_change_l1h0 bb0c bb1c bb0p bb1p c"
  by (simp add: sign_change_l1h0_def mult_less_0_iff)

lemma map_of_columns:
  "map_of (map (\<lambda>c. (c, f c)) cs) a = (if a \<in> set cs then Some (f a) else None)"
  by (induction cs) auto

lemma collision_plane_boxes:
  assumes "face_bbox (map spos (face_edges (edge_df (sheet boxes)) f0)) = Inr bb0c"
    and "face_bbox (map spos (face_edges (edge_df (sheet boxes)) f1)) = Inr bb1c"
    and "face_bbox (buffer_rows (edge_df (sheet boxes)) (edge_buffer boxes) f0) = Inr bb0p"
    and "face_bbox (buffer_rows (edge_df (sheet boxes)) (edge_buffer boxes) f1) = Inr bb1p"
  shows "collision_plane boxes (f0, f1) shyness =
           Inr (plane_of_boxes (map srce (face_edges (edge_df (sheet boxes)) f0))
                  (map srce (face_edges (edge_df (sheet boxes)) f1)) bb0c bb1c bb0p bb1p shyness)"
  using assms by (simp add: collision_plane_def Let_def)

text \<open>
  C3, as amended. Let the four bounding boxes of a face pair be given (current and
  previous, of face 0 and of face 1). If on some axis face 0 was left of face 1 and now
  overlaps it from the left, \<open>_collision_plane\<close> returns a lower bound for the source
  vertices of face 1 and an upper bound for the source vertices of face 0, with one
  column per flagged axis (the axes that show this sign change); on each flagged axis
  the bounds are the linearly interpolated crossing coordinate of the upper edge of
  face 0 and the lower edge of face 1, plus and minus half the shyness. The mirror case
  is the second branch of the code: when face 1 was left of face 0 on some axis and now
  overlaps it from the left, and no axis shows the first sign change, the same holds
  with the two faces exchanged.
\<close>

theorem collision_plane_crossing:
  assumes "face_bbox (map spos (face_edges (edge_df (sheet boxes)) f0)) = Inr bb0c"
    and "face_bbox (map spos (face_edges (edge_df (sheet boxes)) f1)) = Inr bb1c"
    and "face_bbox (buffer_rows (edge_df (sheet boxes)) (edge_buffer boxes) f0) = Inr bb0p"
    and "face_bbox (buffer_rows (edge_df (sheet boxes)) (edge_buffer boxes) f1) = Inr bb1p"
  shows
    "(vget (bb_h bb0p) c < vget (bb_l bb1p) c \<and> vget (bb_l bb1c) c < vget (bb_h bb0c) c \<longrightarrow>
       (\<exists>lower upper.
          collision_plane boxes (f0, f1) shyness = Inr (Some (lower, upper)) \<and>
          index lower = map srce (face_edges (edge_df (sheet boxes)) f1) \<and>
          index upper = map srce (face_edges (edge_df (sheet boxes)) f0) \<and>
          map fst (columns lower) = filter (sign_change_l1h0 bb0c bb1c bb0p bb1p) coords \<and>
          map fst (columns upper) = filter (sign_change_l1h0 bb0c bb1c bb0p bb1p) coords \<and>
          (\<forall>a. sign_change_l1h0 bb0c bb1c bb0p bb1p a \<longrightarrow>
             (\<exists>p. crossing (vget (bb_h bb0p) a) (vget (bb_h bb0c) a) (vget (bb_l bb1p) a) (vget (bb_l bb1c) a) p \<and>
                  map_of (columns lower) a = Some (p + shyness / 2) \<and>
                  map_of (columns upper) a = Some (p - shyness / 2))))) \<and>
     (vget (bb_h bb1p) c < vget (bb_l bb0p) c \<and> vget (bb_l bb0c) c < vget (bb_h bb1c) c \<and>
      (\<forall>a. \<not> sign_change_l1h0 bb0c bb1c bb0p bb1p a) \<longrightarrow>
       (\<exists>lower upper.
          collision_plane boxes (f0, f1) shyness = Inr (Some (lower, upper)) \<and>
          index lower = map srce (face_edges (edge_df (sheet boxes)) f0) \<and>
          index upper = map srce (face_edges (edge_df (sheet boxes)) f1) \<and>
          map fst (columns lower) = filter (sign_change_l0h1 bb0c bb1c bb0p bb1p) coords \<and>
          map fst (columns upper) = filter (sign_change_l0h1 bb0c bb1c bb0p bb1p) coords \<and>
          (\<forall>a. sign_change_l0h1 bb0c bb1c bb0p bb1p a \<longrightarrow>
             (\<exists>p. crossing (vget (bb_h bb1p) a) (vget (bb_h bb1c) a) (vget (bb_l bb0p) a) (vget (bb_l bb0c) a) p \<and>
                  map_of (columns lower) a = Some (p + shyness / 2) \<and>
                  map_of (columns upper) a = Some (p - shyness / 2)))))"
proof (intro conjI impI)
  note cp = collision_plane_boxes [OF assms, of shyness]
  assume "vget (bb_h bb0p) c < vget (bb_l bb1p) c \<and> vget (bb_l bb1c) c < vget (bb_h bb0c) c"
  then have sc: "sign_change_l1h0 bb0c bb1c bb0p bb1p c"
    by (simp add: was_left_now_overlapping)
  let ?P = "plane_coords_l1h0 bb0c bb1c bb0p bb1p"
  let ?ax = "filter (sign_change_l1h0 bb0c bb1c bb0p bb1p) coords"
  let ?lower = "\<lparr>index = map srce (face_edges (edge_df (sheet boxes)) f1),
                 columns = map (\<lambda>c. (c, ?P c + shyness / 2)) ?ax\<rparr>"
  let ?upper = "\<lparr>index = map srce (face_edges (edge_df (sheet boxes)) f0),
                 columns = map (\<lambda>c. (c, ?P c - shyness / 2)) ?ax\<rparr>"
  from sc have "collision_plane boxes (f0, f1) shyness = Inr (Some (?lower, ?upper))"
    unfolding cp by (auto simp: plane_of_boxes_def Let_def)
  moreover have "map fst (columns ?lower) = ?ax" "map fst (columns ?upper) = ?ax"
    by (simp_all add: comp_def)
  moreover have "\<exists>p. crossing (vget (bb_h bb0p) a) (vget (bb_h bb0c) a) (vget (bb_l bb1p) a) (vget (bb_l bb1c) a) p \<and>
                  map_of (columns ?lower) a = Some (p + shyness / 2) \<and>
                  map_of (columns ?upper) a = Some (p - shyness / 2)"
    if "sign_change_l1h0 bb0c bb1c bb0p bb1p a" for a
    using crossing_l1h0 [OF that] that by (intro exI [of _ "?P a"]) (simp add: map_of_columns)
  ultimately show "\<exists>lower upper.
          collision_plane boxes (f0, f1) shyness = Inr (Some (lower, upper)) \<and>
          index lower = map srce (face_edges (edge_df (sheet boxes)) f1) \<and>
          index upper = map srce (face_edges (edge_df (sheet boxes)) f0) \<and>
          map fst (columns lower) = filter (sign_change_l1h0 bb0c bb1c bb0p bb1p) coords \<and>
          map fst (columns upper) = filter (sign_change_l1h0 bb0c bb1c bb0p bb1p) coords \<and>
          (\<forall>a. sign_change_l1h0 bb0c bb1c bb0p bb1p a \<longrightarrow>
             (\<exists>p. crossing (vget (bb_h bb0p) a) (vget (bb_h bb0c) a) (vget (bb_l bb1p) a) (vget (bb_l bb1c) a) p \<and>
                  map_of (columns lower) a = Some (p + shyness / 2) \<and>
                  map_of (columns upper) a = Some (p - shyness / 2)))"
    by (intro exI [of _ ?lower] exI [of _ ?upper]) simp
next
  note cp = collision_plane_boxes [OF assms, of shyness]
  assume h: "vget (bb_h bb1p) c < vget (bb_l bb0p) c \<and> vget (bb_l bb0c) c < vget (bb_h bb1c) c \<and>
      (\<forall>a. \<not> sign_change_l1h0 bb0c bb1c bb0p bb1p a)"
  then have sc: "sign_change_l0h1 bb0c bb1c bb0p bb1p c"
    by (simp add: sign_change_l0h1_def mult_less_0_iff)
  from h have no: "\<not> (\<exists>a \<in> set coords. sign_change_l1h0 bb0c bb1c bb0p bb1p a)" by simp
  let ?P = "plane_coords_l0h1 bb0c bb1c bb0p bb1p"
  let ?ax = "filter (sign_change_l0h1 bb0c bb1c bb0p bb1p) coords"
  let ?lower = "\<lparr>index = map srce (face_edges (edge_df (sheet boxes)) f0),
                 columns = map (\<lambda>c. (c, ?P c + shyness / 2)) ?ax\<rparr>"
  let ?upper = "\<lparr>index = map srce (face_edges (edge_df (sheet boxes)) f1),
                 columns = map (\<lambda>c. (c, ?P c - shyness / 2)) ?ax\<rparr>"
  from sc have "\<exists>a \<in> set coords. sign_change_l0h1 bb0c bb1c bb0p bb1p a" by auto
  with no have "collision_plane boxes (f0, f1) shyness = Inr (Some (?lower, ?upper))"
    unfolding cp plane_of_boxes_def by (simp add: Let_def)
  moreover have "map fst (columns ?lower) = ?ax" "map fst (columns ?upper) = ?ax"
    by (simp_all add: comp_def)
  moreover have "\<exists>p. crossing (vget (bb_h bb1p) a) (vget (bb_h bb1c) a) (vget (bb_l bb0p) a) (vget (bb_l bb0c) a) p \<and>
                  map_of (columns ?lower) a = Some (p + shyness / 2) \<and>
                  map_of (columns ?upper) a = Some (p - shyness / 2)"
    if "sign_change_l0h1 bb0c bb1c bb0p bb1p a" for a
    using crossing_l0h1 [OF that] that by (intro exI [of _ "?P a"]) (simp add: map_of_columns)
  ultimately show "\<exists>lower upper.
          collision_plane boxes (f0, f1) shyness = Inr (Some (lower, upper)) \<and>
          index lower = map srce (face_edges (edge_df (sheet boxes)) f0) \<and>
          index upper = map srce (face_edges (edge_df (sheet boxes)) f1) \<and>
          map fst (columns lower) = filter (sign_change_l0h1 bb0c bb1c bb0p bb1p) coords \<and>
          map fst (columns upper) = filter (sign_change_l0h1 bb0c bb1c bb0p bb1p) coords \<and>
          (\<forall>a. sign_change_l0h1 bb0c bb1c bb0p bb1p a \<longrightarrow>
             (\<exists>p. crossing (vget (bb_h bb1p) a) (vget (bb_h bb1c) a) (vget (bb_l bb0p) a) (vget (bb_l bb0c) a) p \<and>
                  map_of (columns lower) a = Some (p + shyness / 2) \<and>
                  map_of (columns upper) a = Some (p - shyness / 2)))"
    by (intro exI [of _ ?lower] exI [of _ ?upper]) simp
qed

theorem collision_plane_crossing_witness:
  "collision_plane ex_boxes (0, 1) 1
     = Inr (Some (\<lparr>index = [3, 4, 5], columns = [(X, 5 / 2)]\<rparr>, \<lparr>index = [0, 1, 2], columns = [(X, 3 / 2)]\<rparr>)) \<and>
   crossing 2 2 3 1 2 \<and>
   collision_plane ex_boxes (0, 2) 1
     = Inr (Some (\<lparr>index = [0, 1, 2], columns = [(X, 1 / 2)]\<rparr>, \<lparr>index = [6, 7, 8], columns = [(X, - 1 / 2)]\<rparr>)) \<and>
   crossing (- 1) 1 0 0 0"
proof -
  have b0c: "face_bbox (map spos (face_edges (edge_df (sheet ex_boxes)) 0)) = Inr ex_bb0" by code_simp
  have b1c: "face_bbox (map spos (face_edges (edge_df (sheet ex_boxes)) 1)) = Inr ex_bb1c" by code_simp
  have b2c: "face_bbox (map spos (face_edges (edge_df (sheet ex_boxes)) 2)) = Inr ex_bb2c" by code_simp
  have b0p: "face_bbox (buffer_rows (edge_df (sheet ex_boxes)) (edge_buffer ex_boxes) 0) = Inr ex_bb0" by code_simp
  have b1p: "face_bbox (buffer_rows (edge_df (sheet ex_boxes)) (edge_buffer ex_boxes) 1) = Inr ex_bb1p" by code_simp
  have b2p: "face_bbox (buffer_rows (edge_df (sheet ex_boxes)) (edge_buffer ex_boxes) 2) = Inr ex_bb2p" by code_simp
  have cp1: "collision_plane ex_boxes (0, 1) 1
     = Inr (Some (\<lparr>index = [3, 4, 5], columns = [(X, 5 / 2)]\<rparr>, \<lparr>index = [0, 1, 2], columns = [(X, 3 / 2)]\<rparr>))"
    by code_simp
  have cp2: "collision_plane ex_boxes (0, 2) 1
     = Inr (Some (\<lparr>index = [0, 1, 2], columns = [(X, 1 / 2)]\<rparr>, \<lparr>index = [6, 7, 8], columns = [(X, - 1 / 2)]\<rparr>))"
    by code_simp
  have h1: "vget (bb_h ex_bb0) X < vget (bb_l ex_bb1p) X \<and> vget (bb_l ex_bb1c) X < vget (bb_h ex_bb0) X"
    by code_simp
  have s1: "sign_change_l1h0 ex_bb0 ex_bb1c ex_bb0 ex_bb1p X" by code_simp
  have h2: "vget (bb_h ex_bb2p) X < vget (bb_l ex_bb0) X \<and> vget (bb_l ex_bb0) X < vget (bb_h ex_bb2c) X \<and>
      (\<forall>a. \<not> sign_change_l1h0 ex_bb0 ex_bb2c ex_bb0 ex_bb2p a)"
  proof -
    have "\<not> sign_change_l1h0 ex_bb0 ex_bb2c ex_bb0 ex_bb2p a" for a
      by (cases a) (simp_all add: sign_change_l1h0_def ex_bb0_def ex_bb2c_def ex_bb2p_def)
    moreover have "vget (bb_h ex_bb2p) X < vget (bb_l ex_bb0) X \<and> vget (bb_l ex_bb0) X < vget (bb_h ex_bb2c) X"
      by code_simp
    ultimately show ?thesis by blast
  qed
  have s2: "sign_change_l0h1 ex_bb0 ex_bb2c ex_bb0 ex_bb2p X" by code_simp
  have v1: "vget (bb_h ex_bb0) X = 2" "vget (bb_l ex_bb1p) X = 3" "vget (bb_l ex_bb1c) X = 1"
    by (simp_all add: ex_bb0_def ex_bb1p_def ex_bb1c_def)
  have v2: "vget (bb_h ex_bb2p) X = - 1" "vget (bb_h ex_bb2c) X = 1" "vget (bb_l ex_bb0) X = 0"
    by (simp_all add: ex_bb0_def ex_bb2p_def ex_bb2c_def)
  from collision_plane_crossing [OF b0c b1c b0p b1p, of X 1, THEN conjunct1, THEN mp, OF h1]
  obtain lower upper where
    e1: "collision_plane ex_boxes (0, 1) 1 = Inr (Some (lower, upper))" and
    c1: "\<forall>a. sign_change_l1h0 ex_bb0 ex_bb1c ex_bb0 ex_bb1p a \<longrightarrow>
             (\<exists>p. crossing (vget (bb_h ex_bb0) a) (vget (bb_h ex_bb0) a) (vget (bb_l ex_bb1p) a) (vget (bb_l ex_bb1c) a) p \<and>
                  map_of (columns lower) a = Some (p + 1 / 2) \<and>
                  map_of (columns upper) a = Some (p - 1 / 2))"
    by blast
  from e1 cp1 have l1: "columns lower = [(X, 5 / 2)]" by auto
  from c1 s1 obtain p where
    p: "crossing (vget (bb_h ex_bb0) X) (vget (bb_h ex_bb0) X) (vget (bb_l ex_bb1p) X) (vget (bb_l ex_bb1c) X) p"
      "map_of (columns lower) X = Some (p + 1 / 2)"
    by blast
  from p(2) l1 have "p = 2" by simp
  with p(1) have cr1: "crossing 2 2 3 1 2" unfolding v1 by simp
  from collision_plane_crossing [OF b0c b2c b0p b2p, of X 1, THEN conjunct2, THEN mp, OF h2]
  obtain lower' upper' where
    e2: "collision_plane ex_boxes (0, 2) 1 = Inr (Some (lower', upper'))" and
    c2: "\<forall>a. sign_change_l0h1 ex_bb0 ex_bb2c ex_bb0 ex_bb2p a \<longrightarrow>
             (\<exists>p. crossing (vget (bb_h ex_bb2p) a) (vget (bb_h ex_bb2c) a) (vget (bb_l ex_bb0) a) (vget (bb_l ex_bb0) a) p \<and>
                  map_of (columns lower') a = Some (p + 1 / 2) \<and>
                  map_of (columns upper') a = Some (p - 1 / 2))"
    by blast
  from e2 cp2 have l2: "columns lower' = [(X, 1 / 2)]" by auto
  from c2 s2 obtain q where
    q: "crossing (vget (bb_h ex_bb2p) X) (vget (bb_h ex_bb2c) X) (vget (bb_l ex_bb0) X) (vget (bb_l ex_bb0) X) q"
      "map_of (columns lower') X = Some (q + 1 / 2)"
    by blast
  from q(2) l2 have "q = 0" by simp
  with q(1) have cr2: "crossing (- 1) 1 0 0 0" unfolding v2 by simp
  from cp1 cr1 cp2 cr2 show ?thesis by (intro conjI)
qed

text \<open>
  C3, as stated, fails in the mirror case when another axis shows the first sign change.
  In the third example face 1 was left of face 0 on the axis \<open>x\<close> and now overlaps it
  from the left, the mirror sign change; on the axis \<open>y\<close> face 0 was below face 1 and now
  overlaps it from below, the first sign change. The code takes its first branch: the
  only flagged axis is \<open>y\<close>, the lower bound goes to the source vertices of face 1 and the
  upper bound to those of face 0, and no bound is set on the axis \<open>x\<close>.
\<close>

theorem collision_plane_mirror_not_taken:
  "face_bbox (map spos (face_edges (edge_df (sheet ex3_boxes)) 0)) = Inr ex3_bb0 \<and>
   face_bbox (map spos (face_edges (edge_df (sheet ex3_boxes)) 1)) = Inr ex3_bb1c \<and>
   face_bbox (buffer_rows (edge_df (sheet ex3_boxes)) (edge_buffer ex3_boxes) 0) = Inr ex3_bb0 \<and>
   face_bbox (buffer_rows (edge_df (sheet ex3_boxes)) (edge_buffer ex3_boxes) 1) = Inr ex3_bb1p \<and>
   CollidingBoxes_init (tri_mesh ex3_cur) (zip [0..<6] ex3_prev) [(3, 2)] = Inr ex3_boxes \<and>
   vget (bb_h ex3_bb1p) X < vget (bb_l ex3_bb0) X \<and> vget (bb_l ex3_bb0) X < vget (bb_h ex3_bb1c) X \<and>
   sign_change_l0h1 ex3_bb0 ex3_bb1c ex3_bb0 ex3_bb1p X \<and>
   sign_change_l1h0 ex3_bb0 ex3_bb1c ex3_bb0 ex3_bb1p Y \<and>
   collision_plane ex3_boxes (0, 1) 1
     = Inr (Some (\<lparr>index = [3, 4, 5], columns = [(Y, 9 / 2)]\<rparr>, \<lparr>index = [0, 1, 2], columns = [(Y, 7 / 2)]\<rparr>))"
  by code_simp

section \<open>The bounds tables\<close>

lemma vget_vset: "vget (vset r c x) a = (if a = c then x else vget r a)"
  by (cases r rule: prod_cases3; cases c; cases a) simp_all

lemma foldl_columns_unchanged:
  "a \<notin> fst ` set cols \<Longrightarrow>
   vget (foldl (\<lambda>r (c, b). vset r c (op (vget r c) b)) row cols) a = vget row a"
proof (induction cols arbitrary: row)
  case Nil
  show ?case by simp
next
  case (Cons cb cols)
  obtain c b where cb: "cb = (c, b)" by (cases cb)
  from Cons.prems cb have ne: "a \<noteq> c" and rest: "a \<notin> fst ` set cols" by auto
  from Cons.IH [OF rest, of "vset row c (op (vget row c) b)"] ne
  show ?case unfolding cb by (simp add: vget_vset)
qed

lemma update_bounds_map:
  "update_bounds op frame tbl = Inr tbl' \<Longrightarrow> tbl' = map (touch op frame) tbl"
  by (auto simp: update_bounds_def touch_def split: if_splits)

lemma touch_fst [simp]: "fst (touch op frame (v, row)) = v"
  by (simp add: touch_def)

lemma touch_changes:
  "vget (snd (touch op frame (v, row))) a \<noteq> vget row a \<Longrightarrow>
   v \<in> set (index frame) \<and> a \<in> fst ` set (columns frame)"
  using foldl_columns_unchanged [of a "columns frame" op row]
  by (auto simp: touch_def split: if_splits)

lemma limits_loop_changes:
  "limits_loop boxes shyness fps (lb, ub, pf) = Inr (lb', ub', pf') \<Longrightarrow>
   \<exists>G H. lb' = map G lb \<and> ub' = map H ub \<and>
     (\<forall>v row. fst (G (v, row)) = v \<and>
        (\<forall>a. vget (snd (G (v, row))) a \<noteq> vget row a \<longrightarrow> receives_lower boxes shyness fps v a)) \<and>
     (\<forall>v row. fst (H (v, row)) = v \<and>
        (\<forall>a. vget (snd (H (v, row))) a \<noteq> vget row a \<longrightarrow> receives_upper boxes shyness fps v a))"
proof (induction fps arbitrary: lb ub pf)
  case Nil
  then have "lb' = map id lb" "ub' = map id ub" by simp_all
  then show ?case by (intro exI [of _ id] conjI) simp_all
next
  case (Cons fp fps)
  show ?case
  proof (cases "collision_plane boxes fp shyness")
    case (Inl err)
    with Cons.prems show ?thesis by simp
  next
    case (Inr r)
    show ?thesis
    proof (cases r)
      case None
      with Inr Cons.prems have "limits_loop boxes shyness fps (lb, ub, pf) = Inr (lb', ub', pf')"
        by simp
      from Cons.IH [OF this] obtain G H where
        gh: "lb' = map G lb" "ub' = map H ub"
        and g: "\<And>v row. fst (G (v, row)) = v"
               "\<And>v row a. vget (snd (G (v, row))) a \<noteq> vget row a \<Longrightarrow> receives_lower boxes shyness fps v a"
        and h: "\<And>v row. fst (H (v, row)) = v"
               "\<And>v row a. vget (snd (H (v, row))) a \<noteq> vget row a \<Longrightarrow> receives_upper boxes shyness fps v a"
        by blast
      have "receives_lower boxes shyness fps v a \<Longrightarrow> receives_lower boxes shyness (fp # fps) v a"
           "receives_upper boxes shyness fps v a \<Longrightarrow> receives_upper boxes shyness (fp # fps) v a" for v a
        by (simp_all add: receives_lower_def receives_upper_def)
      with gh g h show ?thesis by (intro exI [of _ G] exI [of _ H]) blast
    next
      case (Some pl)
      obtain lower upper where pl: "pl = (lower, upper)" by (cases pl)
      from Cons.prems Inr Some pl obtain lb1 ub1 where
        l: "update_bounds maximum_lower lower lb = Inr lb1" and
        u: "update_bounds minimum_upper upper ub = Inr ub1" and
        rest: "limits_loop boxes shyness fps (lb1, ub1, True) = Inr (lb', ub', pf')"
        by (auto split: sum.splits)
      from Cons.IH [OF rest] obtain G H where
        gh: "lb' = map G lb1" "ub' = map H ub1"
        and g: "\<And>v row. fst (G (v, row)) = v"
               "\<And>v row a. vget (snd (G (v, row))) a \<noteq> vget row a \<Longrightarrow> receives_lower boxes shyness fps v a"
        and h: "\<And>v row. fst (H (v, row)) = v"
               "\<And>v row a. vget (snd (H (v, row))) a \<noteq> vget row a \<Longrightarrow> receives_upper boxes shyness fps v a"
        by blast
      have keep: "receives_lower boxes shyness fps v a \<Longrightarrow> receives_lower boxes shyness (fp # fps) v a"
           "receives_upper boxes shyness fps v a \<Longrightarrow> receives_upper boxes shyness (fp # fps) v a" for v a
        by (simp_all add: receives_lower_def receives_upper_def)
      have here: "v \<in> set (index lower) \<and> a \<in> fst ` set (columns lower) \<Longrightarrow> receives_lower boxes shyness (fp # fps) v a"
           "v \<in> set (index upper) \<and> a \<in> fst ` set (columns upper) \<Longrightarrow> receives_upper boxes shyness (fp # fps) v a" for v a
        using Inr Some pl by (simp_all add: receives_lower_def receives_upper_def)
      let ?G = "G \<circ> touch maximum_lower lower"
      let ?H = "H \<circ> touch minimum_upper upper"
      from gh update_bounds_map [OF l] update_bounds_map [OF u]
      have maps: "lb' = map ?G lb" "ub' = map ?H ub" by simp_all
      have G1: "fst (?G (v, row)) = v" for v row
        using g(1) [of v "snd (touch maximum_lower lower (v, row))"] touch_fst [of maximum_lower lower v row]
        by (cases "touch maximum_lower lower (v, row)") simp
      have H1: "fst (?H (v, row)) = v" for v row
        using h(1) [of v "snd (touch minimum_upper upper (v, row))"] touch_fst [of minimum_upper upper v row]
        by (cases "touch minimum_upper upper (v, row)") simp
      have G2: "receives_lower boxes shyness (fp # fps) v a"
        if d: "vget (snd (?G (v, row))) a \<noteq> vget row a" for v row a
      proof -
        obtain row1 where t: "touch maximum_lower lower (v, row) = (v, row1)"
          using touch_fst [of maximum_lower lower v row]
          by (cases "touch maximum_lower lower (v, row)") simp
        show ?thesis
        proof (cases "vget row1 a = vget row a")
          case True
          with d t have "vget (snd (G (v, row1))) a \<noteq> vget row1 a" by simp
          from keep(1) [OF g(2) [OF this]] show ?thesis .
        next
          case False
          with t have "vget (snd (touch maximum_lower lower (v, row))) a \<noteq> vget row a" by simp
          from here(1) [OF touch_changes [OF this]] show ?thesis .
        qed
      qed
      have H2: "receives_upper boxes shyness (fp # fps) v a"
        if d: "vget (snd (?H (v, row))) a \<noteq> vget row a" for v row a
      proof -
        obtain row1 where t: "touch minimum_upper upper (v, row) = (v, row1)"
          using touch_fst [of minimum_upper upper v row]
          by (cases "touch minimum_upper upper (v, row)") simp
        show ?thesis
        proof (cases "vget row1 a = vget row a")
          case True
          with d t have "vget (snd (H (v, row1))) a \<noteq> vget row1 a" by simp
          from keep(2) [OF h(2) [OF this]] show ?thesis .
        next
          case False
          with t have "vget (snd (touch minimum_upper upper (v, row))) a \<noteq> vget row a" by simp
          from here(2) [OF touch_changes [OF this]] show ?thesis .
        qed
      qed
      from maps G1 G2 H1 H2 show ?thesis
        by (intro exI [of _ ?G] exI [of _ ?H]) blast
    qed
  qed
qed

text \<open>
  C5, as amended. In the bounds tables that the loop of \<open>solve_collisions\<close> builds, an
  entry that received no bound keeps its infinite initial value: a vertex that received
  no lower bound on an axis keeps \<open>-inf\<close> there and one that received no upper bound
  keeps \<open>+inf\<close>. So the aggregated lower bound is at most the aggregated upper bound on
  every axis on which the vertex did not receive bounds of both kinds. (A vertex that
  received a lower bound from one face pair and an upper bound from another may end with
  the lower bound above the upper one.)
\<close>

theorem aggregate_bounds_one_kind:
  assumes agg: "aggregate_bounds boxes shyness = Inr (lower_bounds, upper_bounds, plane_found)"
    and lo: "(v, lrow) \<in> set lower_bounds"
    and up: "(v, urow) \<in> set upper_bounds"
  shows "(\<not> receives_lower boxes shyness (face_pairs boxes) v c \<longrightarrow> vget lrow c = Unbounded) \<and>
         (\<not> receives_upper boxes shyness (face_pairs boxes) v c \<longrightarrow> vget urow c = Unbounded) \<and>
         (\<not> (receives_lower boxes shyness (face_pairs boxes) v c \<and>
              receives_upper boxes shyness (face_pairs boxes) v c) \<longrightarrow>
            lower_le_upper (vget lrow c) (vget urow c))"
proof -
  let ?init = "init_bounds (colliding_verts boxes)"
  from agg have "limits_loop boxes shyness (face_pairs boxes) (?init, ?init, False)
                   = Inr (lower_bounds, upper_bounds, plane_found)"
    by (simp add: aggregate_bounds_def Let_def)
  from limits_loop_changes [OF this] obtain G H where
    gh: "lower_bounds = map G ?init" "upper_bounds = map H ?init"
    and g: "\<And>v row. fst (G (v, row)) = v"
           "\<And>v row a. vget (snd (G (v, row))) a \<noteq> vget row a \<Longrightarrow>
              receives_lower boxes shyness (face_pairs boxes) v a"
    and h: "\<And>v row. fst (H (v, row)) = v"
           "\<And>v row a. vget (snd (H (v, row))) a \<noteq> vget row a \<Longrightarrow>
              receives_upper boxes shyness (face_pairs boxes) v a"
    by blast
  have init: "row = (Unbounded, Unbounded, Unbounded)" if "(w, row) \<in> set ?init" for w row
    using that by (auto simp: init_bounds_def)
  have unb: "vget (Unbounded, Unbounded, Unbounded) c = Unbounded" by (cases c) simp_all
  from lo gh(1) obtain w row where w: "(w, row) \<in> set ?init" "G (w, row) = (v, lrow)" by auto
  from w(2) g(1) [of w row] have "w = v" by simp
  with w init [OF w(1)] have gl: "G (v, (Unbounded, Unbounded, Unbounded)) = (v, lrow)" by simp
  from up gh(2) obtain w' row' where w': "(w', row') \<in> set ?init" "H (w', row') = (v, urow)" by auto
  from w'(2) h(1) [of w' row'] have "w' = v" by simp
  with w' init [OF w'(1)] have hu: "H (v, (Unbounded, Unbounded, Unbounded)) = (v, urow)" by simp
  have a: "vget lrow c = Unbounded" if "\<not> receives_lower boxes shyness (face_pairs boxes) v c"
    using g(2) [of v "(Unbounded, Unbounded, Unbounded)" c] that gl unb by auto
  have b: "vget urow c = Unbounded" if "\<not> receives_upper boxes shyness (face_pairs boxes) v c"
    using h(2) [of v "(Unbounded, Unbounded, Unbounded)" c] that hu unb by auto
  have le1: "lower_le_upper Unbounded x" for x by simp
  have le2: "lower_le_upper x Unbounded" for x by (cases x) simp_all
  from a b le1 le2 show ?thesis by metis
qed

theorem aggregate_bounds_one_kind_witness:
  "aggregate_bounds ex_boxes 1 = Inr (ex_lower, ex_upper, True) \<and>
   (3, (Fin (5 / 2), Unbounded, Unbounded)) \<in> set ex_lower \<and>
   (3, (Unbounded, Unbounded, Unbounded)) \<in> set ex_upper \<and>
   \<not> receives_upper ex_boxes 1 (face_pairs ex_boxes) 3 X \<and>
   \<not> receives_lower ex_boxes 1 (face_pairs ex_boxes) 3 Y \<and>
   vget (Fin (5 / 2), Unbounded, Unbounded) Y = Unbounded \<and>
   vget (Unbounded, Unbounded, Unbounded) X = Unbounded \<and>
   lower_le_upper (vget (Fin (5 / 2), Unbounded, Unbounded) X) (vget (Unbounded, Unbounded, Unbounded) X)"
proof -
  have agg: "aggregate_bounds ex_boxes 1 = Inr (ex_lower, ex_upper, True)" by code_simp
  have lo: "(3, (Fin (5 / 2), Unbounded, Unbounded)) \<in> set ex_lower" by code_simp
  have up: "(3, (Unbounded, Unbounded, Unbounded)) \<in> set ex_upper" by code_simp
  have nu: "\<not> receives_upper ex_boxes 1 (face_pairs ex_boxes) 3 X" by code_simp
  have nl: "\<not> receives_lower ex_boxes 1 (face_pairs ex_boxes) 3 Y" by code_simp
  note t = aggregate_bounds_one_kind [OF agg lo up]
  from t [of Y, THEN conjunct1, THEN mp, OF nl]
  have a: "vget (Fin (5 / 2), Unbounded, Unbounded) Y = Unbounded" .
  from t [of X, THEN conjunct2, THEN conjunct1, THEN mp, OF nu]
  have b: "vget (Unbounded, Unbounded, Unbounded) X = Unbounded" .
  from nu have "\<not> (receives_lower ex_boxes 1 (face_pairs ex_boxes) 3 X \<and>
                   receives_upper ex_boxes 1 (face_pairs ex_boxes) 3 X)" by simp
  from t [of X, THEN conjunct2, THEN conjunct2, THEN mp, OF this]
  have c: "lower_le_upper (vget (Fin (5 / 2), Unbounded, Unbounded) X) (vget (Unbounded, Unbounded, Unbounded) X)" .
  from agg lo up nu nl a b c show ?thesis by (intro conjI)
qed

text \<open>
  C5, as stated, fails. In the second example every two of the three faces intersect in
  the current mesh, and the detector's edge pairs give the face pairs (0, 1), (0, 2) and
  (1, 2). Vertex 0 receives an upper bound from the pair of faces 0 and 1 and a lower
  bound from the pair of faces 0 and 2, both finite, and its aggregated lower bound on
  the axis \<open>x\<close> ends above its aggregated upper bound.
\<close>

theorem aggregate_bounds_lower_above_upper:
  "CollidingBoxes_init (tri_sheet ex2_cur) (tri_buffer ex_prev) ex2_edge_pairs = Inr ex2_boxes \<and>
   aggregate_bounds ex2_boxes 1 = Inr (ex2_lower, ex2_upper, True) \<and>
   (0, (Fin (11 / 2), Unbounded, Unbounded)) \<in> set ex2_lower \<and>
   (0, (Fin (5 / 2), Unbounded, Unbounded)) \<in> set ex2_upper \<and>
   isfinite (vget (Fin (11 / 2), Unbounded, Unbounded) X) \<and>
   isfinite (vget (Fin (5 / 2), Unbounded, Unbounded) X) \<and>
   \<not> lower_le_upper (vget (Fin (11 / 2), Unbounded, Unbounded) X) (vget (Fin (5 / 2), Unbounded, Unbounded) X)"
  by code_simp

section \<open>The restart loop of the solver\<close>

lemma restarts_minimize:
  "restarts self minimize geom model eptm out \<Longrightarrow>
   QSSolver_minimize self minimize geom model eptm = Some out"
proof (induction rule: restarts.induct)
  case (completes eptm res s)
  then show ?case by (subst QSSolver_minimize.simps) simp
next
  case (fails eptm err s)
  then show ?case by (subst QSSolver_minimize.simps) (cases err; simp)
next
  case (restart eptm s out)
  then show ?case by (subst QSSolver_minimize.simps) simp
qed

lemma minimize_restarts:
  assumes m: "QSSolver_minimize self minimize geom model eptm = Some out"
  shows "restarts self minimize geom model eptm out"
proof (rule QSSolver_minimize.raw_induct
    [where P = "\<lambda>self minimize geom model eptm out. restarts self minimize geom model eptm out",
      OF _ m], goal_cases)
  case (1 f self minimize geom model eptm out)
  obtain r s where run: "run_optimizer self geom model (minimize (active_pos eptm)) eptm = (r, s)"
    by (cases "run_optimizer self geom model (minimize (active_pos eptm)) eptm")
  show ?case
  proof (cases r)
    case (Inr res)
    with 1(2) run have "out = (Inr res, s)" by (simp add: Let_def)
    with run Inr show ?thesis by (simp add: restarts.completes)
  next
    case (Inl err)
    show ?thesis
    proof (cases "err = TopologyChangeError")
      case True
      with 1(2) run Inl have "f self minimize geom model s = Some out" by (simp add: Let_def)
      from 1(1) [OF this] run Inl True show ?thesis by (simp add: restarts.restart)
    next
      case False
      with 1(2) run Inl have "out = (Inl err, s)" by (cases err) (simp_all add: Let_def)
      with run Inl False show ?thesis by (simp add: restarts.fails)
    qed
  qed
qed

lemma restarts_no_topology_change:
  "restarts self minimize geom model eptm out \<Longrightarrow> fst out \<noteq> Inl TopologyChangeError"
  by (induction rule: restarts.induct) simp_all

lemma run_reaches:
  "reaches self geom model opt0 s0 opt s \<Longrightarrow>
   run_optimizer self geom model opt0 s0 = run_optimizer self geom model opt s"
  by (induction rule: reaches.induct) simp_all

lemma mismatch_raises:
  assumes "rearange self" and "length p div length coords \<noteq> length (active_verts s)"
  shows "QSSolver_opt_energy self p s geom model = (Inl TopologyChangeError, s)"
    and "QSSolver_opt_grad self p s geom model = (Inl TopologyChangeError, s)"
  using assms by (simp_all add: QSSolver_opt_energy_def QSSolver_opt_grad_def)

lemma rearange_init: "rearange (QSSolver_init ext with_collisions with_t1 with_t3) = (with_t1 \<or> with_t3)"
  by (simp add: QSSolver_init_def Let_def)

lemma mismatch_ends_round:
  assumes "rearange self" and "length p div length coords \<noteq> length (active_verts s)"
    and "reaches self geom model opt0 s0 opt s"
    and "opt = Energy p k \<or> opt = Gradient p k'"
  shows "run_optimizer self geom model opt0 s0 = (Inl TopologyChangeError, s)"
  using assms(4) run_reaches [OF assms(3)] mismatch_raises [OF assms(1,2), of geom model]
  by auto

text \<open>
  C1. With topology-reactive wrapping enabled (\<open>with_t1\<close> or \<open>with_t3\<close>), an energy or
  gradient evaluation whose trial vector implies a vertex count other than the number
  of active vertices raises the topology change and leaves the mesh as it is. Whenever
  a round of the optimizer arrives at such an evaluation, after any number of
  evaluations that returned, the round ends there with the topology change, and the
  solver catches it: the call goes on as a call from the mesh that the round left, with
  the active coordinates read again and the optimizer started afresh. A round that
  arrives at the optimizer's result ends the call with that result. The call returns
  exactly the outcomes that a finite chain of such restarts ends with, and the topology
  change is never the outcome that reaches the caller.
\<close>

theorem find_energy_min_restarts:
  "(with_t1 \<or> with_t3 \<longrightarrow>
      length p div length coords \<noteq> length (active_verts eptm) \<longrightarrow>
        QSSolver_opt_energy (QSSolver_init ext with_collisions with_t1 with_t3) p eptm geom model
          = (Inl TopologyChangeError, eptm) \<and>
        QSSolver_opt_grad (QSSolver_init ext with_collisions with_t1 with_t3) p eptm geom model
          = (Inl TopologyChangeError, eptm)) \<and>
   (with_t1 \<or> with_t3 \<longrightarrow>
      reaches (QSSolver_init ext with_collisions with_t1 with_t3) geom model
        (minimize (active_pos eptm)) eptm opt s \<longrightarrow>
      opt = Energy p k \<or> opt = Gradient p k' \<longrightarrow>
      length p div length coords \<noteq> length (active_verts s) \<longrightarrow>
        run_optimizer (QSSolver_init ext with_collisions with_t1 with_t3) geom model
          (minimize (active_pos eptm)) eptm = (Inl TopologyChangeError, s) \<and>
        find_energy_min (QSSolver_init ext with_collisions with_t1 with_t3) minimize eptm geom model
          = find_energy_min (QSSolver_init ext with_collisions with_t1 with_t3) minimize s geom model) \<and>
   (reaches self geom model (minimize (active_pos eptm)) eptm (Return res) s \<longrightarrow>
      find_energy_min self minimize eptm geom model = Some (Inr res, s)) \<and>
   (run_optimizer self geom model (minimize (active_pos eptm)) eptm = (Inl TopologyChangeError, s) \<longrightarrow>
      find_energy_min self minimize eptm geom model = find_energy_min self minimize s geom model) \<and>
   (run_optimizer self geom model (minimize (active_pos eptm)) eptm = (Inr res, s) \<longrightarrow>
      find_energy_min self minimize eptm geom model = Some (Inr res, s)) \<and>
   (find_energy_min self minimize eptm geom model = Some out \<longleftrightarrow>
      restarts self minimize geom model eptm out) \<and>
   (find_energy_min self minimize eptm geom model = Some out \<longrightarrow> fst out \<noteq> Inl TopologyChangeError)"
proof (intro conjI impI)
  assume "with_t1 \<or> with_t3" and "length p div length coords \<noteq> length (active_verts eptm)"
  then show "QSSolver_opt_energy (QSSolver_init ext with_collisions with_t1 with_t3) p eptm geom model
          = (Inl TopologyChangeError, eptm)"
    and "QSSolver_opt_grad (QSSolver_init ext with_collisions with_t1 with_t3) p eptm geom model
          = (Inl TopologyChangeError, eptm)"
    by (simp_all add: mismatch_raises rearange_init)
next
  let ?self = "QSSolver_init ext with_collisions with_t1 with_t3"
  assume t: "with_t1 \<or> with_t3"
    and r: "reaches ?self geom model (minimize (active_pos eptm)) eptm opt s"
    and o: "opt = Energy p k \<or> opt = Gradient p k'"
    and m: "length p div length coords \<noteq> length (active_verts s)"
  from t have "rearange ?self" by (simp add: rearange_init)
  from mismatch_ends_round [OF this m r o]
  show run: "run_optimizer ?self geom model (minimize (active_pos eptm)) eptm = (Inl TopologyChangeError, s)" .
  then show "find_energy_min ?self minimize eptm geom model = find_energy_min ?self minimize s geom model"
    unfolding find_energy_min_def by (subst QSSolver_minimize.simps) simp
next
  assume "reaches self geom model (minimize (active_pos eptm)) eptm (Return res) s"
  from run_reaches [OF this]
  have "run_optimizer self geom model (minimize (active_pos eptm)) eptm = (Inr res, s)" by simp
  then show "find_energy_min self minimize eptm geom model = Some (Inr res, s)"
    unfolding find_energy_min_def by (subst QSSolver_minimize.simps) simp
next
  assume "run_optimizer self geom model (minimize (active_pos eptm)) eptm = (Inl TopologyChangeError, s)"
  then show "find_energy_min self minimize eptm geom model = find_energy_min self minimize s geom model"
    unfolding find_energy_min_def by (subst QSSolver_minimize.simps) simp
next
  assume "run_optimizer self geom model (minimize (active_pos eptm)) eptm = (Inr res, s)"
  then show "find_energy_min self minimize eptm geom model = Some (Inr res, s)"
    unfolding find_energy_min_def by (subst QSSolver_minimize.simps) simp
next
  show "find_energy_min self minimize eptm geom model = Some out \<longleftrightarrow>
      restarts self minimize geom model eptm out"
    unfolding find_energy_min_def using minimize_restarts restarts_minimize by blast
next
  assume "find_energy_min self minimize eptm geom model = Some out"
  then have "restarts self minimize geom model eptm out"
    unfolding find_energy_min_def by (rule minimize_restarts)
  then show "fst out \<noteq> Inl TopologyChangeError" by (rule restarts_no_topology_change)
qed

theorem find_energy_min_restarts_witness:
  "length (active_pos (two_verts True)) div length coords \<noteq> length (active_verts (two_verts False)) \<and>
   QSSolver_opt_grad (QSSolver_init ex_ext False True False) (active_pos (two_verts True)) (two_verts False)
     ex_geom ex_model = (Inl TopologyChangeError, two_verts False) \<and>
   reaches (QSSolver_init ex_ext False True False) ex_geom ex_model
     (ex_minimize (active_pos (two_verts True))) (two_verts True)
     (Gradient (active_pos (two_verts True)) (\<lambda>g. Return (active_pos (two_verts True), 1, g)))
     (two_verts False) \<and>
   run_optimizer (QSSolver_init ex_ext False True False) ex_geom ex_model
     (ex_minimize (active_pos (two_verts True))) (two_verts True) = (Inl TopologyChangeError, two_verts False) \<and>
   find_energy_min (QSSolver_init ex_ext False True False) ex_minimize (two_verts True) ex_geom ex_model
     = Some (Inr ([0, 0, 0], 1, [0, 0, 0]), two_verts False) \<and>
   restarts (QSSolver_init ex_ext False True False) ex_minimize ex_geom ex_model (two_verts True)
     (Inr ([0, 0, 0], 1, [0, 0, 0]), two_verts False) \<and>
   fst (Inr ([0, 0, 0], 1, [0, 0, 0]) :: error + real list \<times> real \<times> real list, two_verts False)
     \<noteq> Inl TopologyChangeError"
proof -
  let ?self = "QSSolver_init ex_ext False True False"
  let ?res = "([0, 0, 0], 1, [0, 0, 0]) :: real list \<times> real \<times> real list"
  let ?p = "active_pos (two_verts True)"
  let ?q = "active_pos (two_verts False)"
  have ne: "length ?p div length coords \<noteq> length (active_verts (two_verts False))"
    by code_simp
  have t1: "True \<or> False" by simp
  have q: "?q = [0, 0, 0]" by code_simp
  have eq: "ex_minimize pos0 = Energy pos0 (\<lambda>e. Gradient pos0 (\<lambda>g. Return (pos0, e, g)))" for pos0
    by (rule ex_minimize_def)
  \<comment> \<open>the first round: the energy is evaluated, the type-1 operator leaves one active vertex\<close>
  have a0: "reaches ?self ex_geom ex_model (ex_minimize ?p) (two_verts True)
              (Energy ?p (\<lambda>e. Gradient ?p (\<lambda>g. Return (?p, e, g)))) (two_verts True)"
    by (subst eq [symmetric]) (rule reaches.start)
  have e1: "QSSolver_opt_energy ?self ?p (two_verts True) ex_geom ex_model = (Inr 1, two_verts False)"
    by code_simp
  from reaches.energy [OF a0 e1]
  have a1: "reaches ?self ex_geom ex_model (ex_minimize ?p) (two_verts True)
              (Gradient ?p (\<lambda>g. Return (?p, 1, g))) (two_verts False)" .
  note g = find_energy_min_restarts
    [where ?with_t1.0 = True and ?with_t3.0 = False and p = ?p
       and eptm = "two_verts False" and ext = ex_ext and with_collisions = False
       and geom = ex_geom and model = ex_model,
      THEN conjunct1, THEN mp, OF t1, THEN mp, OF ne, THEN conjunct2]
  have o: "Gradient ?p (\<lambda>g. Return (?p, 1, g)) = Energy ?p (\<lambda>e. Return (?p, e, [])) \<or>
           Gradient ?p (\<lambda>g. Return (?p, 1, g)) = Gradient ?p (\<lambda>g. Return (?p, 1, g))"
    by simp
  note ends = find_energy_min_restarts
    [where ?with_t1.0 = True and ?with_t3.0 = False and ext = ex_ext and with_collisions = False
       and geom = ex_geom and model = ex_model and minimize = ex_minimize
       and eptm = "two_verts True" and s = "two_verts False" and p = ?p
       and opt = "Gradient ?p (\<lambda>g. Return (?p, 1, g))"
       and k = "\<lambda>e. Return (?p, e, [])" and k' = "\<lambda>g. Return (?p, 1, g)",
      THEN conjunct2, THEN conjunct1, THEN mp, OF t1, THEN mp, OF a1, THEN mp, OF o, THEN mp, OF ne]
  note r1 = ends [THEN conjunct1]
  note step = ends [THEN conjunct2]
  \<comment> \<open>the second round, from the mesh that the first round left\<close>
  have b0: "reaches ?self ex_geom ex_model (ex_minimize ?q) (two_verts False)
              (Energy ?q (\<lambda>e. Gradient ?q (\<lambda>g. Return (?q, e, g)))) (two_verts False)"
    by (subst eq [symmetric]) (rule reaches.start)
  have e2: "QSSolver_opt_energy ?self ?q (two_verts False) ex_geom ex_model = (Inr 1, two_verts False)"
    by code_simp
  from reaches.energy [OF b0 e2]
  have b1: "reaches ?self ex_geom ex_model (ex_minimize ?q) (two_verts False)
              (Gradient ?q (\<lambda>g. Return (?q, 1, g))) (two_verts False)" .
  have g2: "QSSolver_opt_grad ?self ?q (two_verts False) ex_geom ex_model = (Inr [0, 0, 0], two_verts False)"
    by code_simp
  from reaches.gradient [OF b1 g2]
  have b2: "reaches ?self ex_geom ex_model (ex_minimize ?q) (two_verts False)
              (Return (?q, 1, [0, 0, 0])) (two_verts False)" .
  note last = find_energy_min_restarts
    [where geom = ex_geom and model = ex_model and self = ?self and minimize = ex_minimize
       and eptm = "two_verts False" and s = "two_verts False" and res = "(?q, 1, [0, 0, 0])",
      THEN conjunct2, THEN conjunct2, THEN conjunct1, THEN mp, OF b2]
  from step last have f: "find_energy_min ?self ex_minimize (two_verts True) ex_geom ex_model
     = Some (Inr ?res, two_verts False)" unfolding q by simp
  note iff = find_energy_min_restarts
    [where geom = ex_geom and model = ex_model and self = ?self and minimize = ex_minimize
       and eptm = "two_verts True" and out = "(Inr ?res, two_verts False)",
      THEN conjunct2, THEN conjunct2, THEN conjunct2, THEN conjunct2, THEN conjunct2, THEN conjunct1]
  from iff f have r: "restarts ?self ex_minimize ex_geom ex_model (two_verts True) (Inr ?res, two_verts False)"
    by simp
  note nt = find_energy_min_restarts
    [where geom = ex_geom and model = ex_model and self = ?self and minimize = ex_minimize
       and eptm = "two_verts True" and out = "(Inr ?res, two_verts False)",
      THEN conjunct2, THEN conjunct2, THEN conjunct2, THEN conjunct2, THEN conjunct2, THEN conjunct2,
      THEN mp, OF f]
  from ne g a1 r1 f r nt show ?thesis by (intro conjI)
qed

section \<open>The clamping of the positions\<close>

text \<open>
  C4 fails on the first example, with shyness 1. Vertex 0 belongs to face 0, which gets
  an upper bound from the pair of faces 0 and 1 and a lower bound from the pair of faces
  0 and 2: its aggregated bounds on the axis \<open>x\<close> are 1/2 and 3/2. Its position 0 lies
  below the lower bound, and \<open>solve_collisions\<close> leaves it at 0: the row of
  \<open>correction_upper\<close> for the vertex is written after the row of \<open>correction_lower\<close>
  and replaces it.
\<close>

theorem solve_collisions_drops_lower_correction:
  "aggregate_bounds ex_boxes 1 = Inr (ex_lower, ex_upper, True) \<and>
   map_of ex_lower 0 = Some (Fin (1 / 2), Unbounded, Unbounded) \<and>
   map_of ex_upper 0 = Some (Fin (3 / 2), Unbounded, Unbounded) \<and>
   lower_le_upper (Fin (1 / 2)) (Fin (3 / 2)) \<and>
   map_option pos (map_of (vert_df (sheet ex_boxes)) 0) = Some (0, 0, 0) \<and>
   solve_collisions ex_boxes 1 = Inr (None, ex_corrected) \<and>
   map_option pos (map_of (vert_df ex_corrected) 0) = Some (0, 0, 0) \<and>
   map_option pos (map_of (vert_df ex_corrected) 2) = Some (3 / 2, 0, 0) \<and>
   map_option pos (map_of (vert_df ex_corrected) 3) = Some (5 / 2, 0, 0)"
  by code_simp

section \<open>The composed position update\<close>

lemma with_collision_correction_steps:
  "with_collision_correction si func sh geom args =
     (case func sh geom args of
        (Inl err, s1) \<Rightarrow> (Inl err, s1)
      | (Inr res, s1) \<Rightarrow>
          (case collision_correction si (map (\<lambda>(v, r). (v, pos r)) (vert_df sh)) s1 of
             Inl err \<Rightarrow> (Inl err, s1)
           | Inr s2 \<Rightarrow> (Inr res, update_all geom s2)))"
  by (simp add: with_collision_correction_def collision_correction_def Let_def
        split: prod.splits sum.splits)

text \<open>
  C2. With the three wrappers enabled, the composed position update writes the positions
  (\<open>_set_pos\<close>) and then applies the corrections in the fixed order: first the collision
  correction (on the mesh that \<open>_set_pos\<close> left, with the geometry refresh that ends the
  collision wrapper), then the type-1 transition, then the type-3 transition, followed by
  a full geometry refresh. An error of the position write or of the collision correction
  ends the call before any transition.
\<close>

theorem set_pos_composition:
  "set_pos (QSSolver_init ext True True True) eptm geom p =
     (case QSSolver_set_pos eptm geom p of
        (Inl err, s) \<Rightarrow> (Inl err, s)
      | (Inr u, s1) \<Rightarrow>
          (case collision_correction (self_intersections ext)
                  (map (\<lambda>(v, r). (v, pos r)) (vert_df eptm)) s1 of
             Inl err \<Rightarrow> (Inl err, s1)
           | Inr s2 \<Rightarrow>
               (Inr u, update_all geom
                  (type3 ext (update_all geom (type1 ext (update_all geom s2) geom)) geom))))"
  by (simp add: QSSolver_init_def auto_t1_def auto_t3_def with_collision_correction_steps
        split: prod.splits sum.splits)

theorem set_pos_composition_witness:
  "set_pos (QSSolver_init ex_ext_t1 True True True) (tri_sheet ex_prev) ex_geom (tri_pos ex_cur)
     = (Inr (), ex_final)"
proof -
  have rhs: "(case QSSolver_set_pos (tri_sheet ex_prev) ex_geom (tri_pos ex_cur) of
        (Inl err, s) \<Rightarrow> (Inl err, s)
      | (Inr u, s1) \<Rightarrow>
          (case collision_correction (self_intersections ex_ext_t1)
                  (map (\<lambda>(v, r). (v, pos r)) (vert_df (tri_sheet ex_prev))) s1 of
             Inl err \<Rightarrow> (Inl err, s1)
           | Inr s2 \<Rightarrow>
               (Inr u, update_all ex_geom
                  (type3 ex_ext_t1 (update_all ex_geom (type1 ex_ext_t1 (update_all ex_geom s2) ex_geom))
                     ex_geom))))
     = (Inr (), ex_final)"
    by code_simp
  from set_pos_composition [of ex_ext_t1 "tri_sheet ex_prev" ex_geom "tri_pos ex_cur"] rhs
  show ?thesis by (rule trans)
qed

end
